theory Spec2Isabelle
  imports Complex_Main "HOL-Library.Word" "HOL-Library.Multiset" "HOL-Library.Log_Nat"
begin

text \<open>
  A model of the two algorithmic parts of the PDF form editor: the evaluator of
  \<^verbatim>\<open>benchmarks/detection/evaluate.ts\<close> (IoU, greedy matching, precision, recall and F1)
  and the post-processing of the raster field detector \<^verbatim>\<open>PDFFieldDetector\<close> (pixel
  reads, size and text-overlap filters, adjacency merge, confidence filter), followed by
  the properties proved about them.
\<close>

section \<open>Numbers\<close>

text \<open>
  The TypeScript sources compute with IEEE doubles. Where a property depends on how an
  operation is rounded (the IoU of two rectangles, the overlap ratios of the text filter,
  the byte index and the brightness of a pixel), every arithmetic operation of the source
  is followed by \<open>fl\<close>, which rounds a real to the nearest number with a significand of
  53 bits, ties to the even significand. \<open>fl\<close> has no exponent bounds: \<open>fl v\<close> is the double
  that the operation returns whenever the exact result \<open>v\<close> is 0 or has a magnitude from
  \<open>2 powi (- 1022)\<close> to \<open>2 powi 1023\<close> (no underflow and no overflow). Elsewhere (the counts and
  metrics of the evaluator, the size filter, the geometry of the merge, the confidence
  filter) finite quantities are \<^typ>\<open>real\<close>. Where the source can produce a non-finite
  value (a division whose divisor may be zero, a typed-array read outside the buffer) the
  result is a \<open>jsnum\<close>, which adds the three special values of the double format. Signed
  zeros are not distinguished.
\<close>

datatype jsnum = Fin real | PInf | NInf | NaN

text \<open>\<^verbatim>\<open>Number.isFinite\<close>.\<close>

fun isFinite :: "jsnum \<Rightarrow> bool" where
  "isFinite (Fin v) = True"
| "isFinite PInf = False"
| "isFinite NInf = False"
| "isFinite NaN = False"

text \<open>The operators \<^verbatim>\<open>+\<close>, \<^verbatim>\<open>*\<close> and \<^verbatim>\<open>/\<close> on numbers.\<close>

fun js_add :: "jsnum \<Rightarrow> jsnum \<Rightarrow> jsnum" where
  "js_add (Fin a) (Fin b) = Fin (a + b)"
| "js_add NaN b = NaN"
| "js_add a NaN = NaN"
| "js_add PInf NInf = NaN"
| "js_add NInf PInf = NaN"
| "js_add PInf b = PInf"
| "js_add NInf b = NInf"
| "js_add a PInf = PInf"
| "js_add a NInf = NInf"

fun js_mul :: "jsnum \<Rightarrow> jsnum \<Rightarrow> jsnum" where
  "js_mul (Fin a) (Fin b) = Fin (a * b)"
| "js_mul NaN b = NaN"
| "js_mul a NaN = NaN"
| "js_mul (Fin a) PInf = (if a = 0 then NaN else if 0 < a then PInf else NInf)"
| "js_mul (Fin a) NInf = (if a = 0 then NaN else if 0 < a then NInf else PInf)"
| "js_mul PInf (Fin b) = (if b = 0 then NaN else if 0 < b then PInf else NInf)"
| "js_mul NInf (Fin b) = (if b = 0 then NaN else if 0 < b then NInf else PInf)"
| "js_mul PInf PInf = PInf"
| "js_mul PInf NInf = NInf"
| "js_mul NInf PInf = NInf"
| "js_mul NInf NInf = PInf"

fun js_div :: "jsnum \<Rightarrow> jsnum \<Rightarrow> jsnum" where
  "js_div (Fin a) (Fin b) =
     (if b = 0 then (if a = 0 then NaN else if 0 < a then PInf else NInf) else Fin (a / b))"
| "js_div NaN b = NaN"
| "js_div a NaN = NaN"
| "js_div (Fin a) PInf = Fin 0"
| "js_div (Fin a) NInf = Fin 0"
| "js_div PInf (Fin b) = (if 0 \<le> b then PInf else NInf)"
| "js_div NInf (Fin b) = (if 0 \<le> b then NInf else PInf)"
| "js_div PInf PInf = NaN"
| "js_div PInf NInf = NaN"
| "js_div NInf PInf = NaN"
| "js_div NInf NInf = NaN"

subsection \<open>Rounding to a double\<close>

text \<open>The integer nearest to \<open>q\<close>, the even one of the two when \<open>q\<close> lies half-way.\<close>

definition roundHalfEven :: "real \<Rightarrow> int" where
  "roundHalfEven q =
     (let f = \<lfloor>q\<rfloor>; r = q - of_int f
      in if r < 1 / 2 then f
         else if 1 / 2 < r then f + 1
         else if even f then f else f + 1)"

text \<open>The binary exponent of a positive number: \<open>2 powi e \<le> v < 2 powi (e + 1)\<close>.\<close>

definition exponentOf :: "real \<Rightarrow> int" where
  "exponentOf v =
     (if 1 \<le> v then int (floorlog 2 (nat \<lfloor>v\<rfloor>)) - 1
      else - int (floorlog 2 (nat \<lceil>1 / v\<rceil> - 1)))"

text \<open>
  A positive number is rounded to a multiple of \<open>2 powi (e - 52)\<close>, the distance between
  neighbouring doubles of exponent \<open>e\<close>.
\<close>

definition roundPositive :: "real \<Rightarrow> real" where
  "roundPositive v =
     (let e = exponentOf v; u = 2 powi (e - 52)
      in of_int (roundHalfEven (v / u)) * u)"

definition fl :: "real \<Rightarrow> real" where
  "fl v = (if v = 0 then 0 else if 0 < v then roundPositive v else - roundPositive (- v))"

text \<open>The numbers that rounding leaves unchanged, and the magnitudes of the normal doubles
  whose double is again in range.\<close>

definition isDouble :: "real \<Rightarrow> bool" where
  "isDouble v = (fl v = v)"

definition withinRange :: "real \<Rightarrow> bool" where
  "withinRange v = (2 powi (- 1022) \<le> \<bar>v\<bar> \<and> \<bar>v\<bar> \<le> 2 powi 1022)"

text \<open>
  The result of an arithmetic operator in doubles: a finite result is rounded, a special
  value stays.
\<close>

fun jsRound :: "jsnum \<Rightarrow> jsnum" where
  "jsRound (Fin v) = Fin (fl v)"
| "jsRound PInf = PInf"
| "jsRound NInf = NInf"
| "jsRound NaN = NaN"

section \<open>Data model\<close>

text \<open>\<^verbatim>\<open>FieldType\<close> of \<^verbatim>\<open>src/types/form.ts\<close>.\<close>

datatype FieldType =
  Text | Multiline | Checkbox | Signature | Radio | Dropdown | Listbox | Button

text \<open>
  \<^verbatim>\<open>NormalizedRect\<close>, and the structurally identical pixel-space rectangle of
  \<^verbatim>\<open>DetectedElement\<close> and of the known text boxes: \<^verbatim>\<open>{x, y, width, height}\<close>.
\<close>

record Rect =
  rect_x :: real
  rect_y :: real
  rect_width :: real
  rect_height :: real

text \<open>
  \<^verbatim>\<open>FieldAnnotation\<close> and \<^verbatim>\<open>FieldPrediction extends FieldAnnotation\<close> of
  \<^verbatim>\<open>benchmarks/detection/types.ts\<close>. The free-form \<^verbatim>\<open>attributes\<close> and \<^verbatim>\<open>extra\<close>
  dictionaries are never read by the evaluator and are left out.
\<close>

record FieldAnnotation =
  field_id :: "string option"
  field_type :: FieldType
  field_rect :: Rect

record FieldPrediction = FieldAnnotation +
  field_confidence :: "real option"

record PageAnnotation =
  page_pageIndex :: int
  page_fields :: "FieldAnnotation list"

record PagePrediction =
  ppage_pageIndex :: int
  ppage_fields :: "FieldPrediction list"

record DocumentAnnotation =
  doc_documentId :: string
  doc_pages :: "PageAnnotation list"

record DetectionOutput =
  out_documentId :: string
  out_pages :: "PagePrediction list"
  out_summary :: "(string \<times> string) list option"

text \<open>The evaluator's own types (\<^verbatim>\<open>benchmarks/detection/evaluate.ts\<close>).\<close>

record 'f Instance =
  pageIndex :: int
  field :: 'f

record MatchRecord =
  match_type :: FieldType
  match_pageIndex :: int
  match_truth :: "FieldAnnotation Instance"
  match_prediction :: "FieldPrediction Instance"
  match_iou :: real

record TypeCounts =
  tp :: nat
  fp :: nat
  fn :: nat

record TypeMetrics = TypeCounts +
  precision :: real
  recall :: real
  f1 :: real

text \<open>
  \<^verbatim>\<open>AggregateMetrics\<close> has the six fields of \<^verbatim>\<open>TypeMetrics\<close> and two more; TypeScript
  types are structural, so it is modelled as the extension.
\<close>

record AggregateMetrics = TypeMetrics +
  support :: nat
  predicted :: nat

text \<open>
  \<^verbatim>\<open>MatchRun\<close> is the result of the matcher. \<^verbatim>\<open>EvaluationReport\<close> carries the same three
  lists under the same names, and is modelled as the extension.
\<close>

record MatchRun =
  matches :: "MatchRecord list"
  falsePositives :: "FieldPrediction Instance list"
  falseNegatives :: "FieldAnnotation Instance list"

record EvaluationReport = MatchRun +
  report_documentId :: string
  report_threshold :: real
  perType :: "FieldType \<rightharpoonup> TypeMetrics"
  micro :: AggregateMetrics
  macro :: AggregateMetrics
  report_summary :: "(string \<times> string) list option"

section \<open>Evaluator\<close>

text \<open>\<^verbatim>\<open>clamp\<close>: a non-finite metric is replaced by 0.\<close>

fun clamp :: "jsnum \<Rightarrow> real" where
  "clamp (Fin v) = v"
| "clamp PInf = 0"
| "clamp NInf = 0"
| "clamp NaN = 0"

definition computeIoU :: "Rect \<Rightarrow> Rect \<Rightarrow> real" where
  "computeIoU a b =
     (let left = max (rect_x a) (rect_x b);
          top = max (rect_y a) (rect_y b);
          right = min (rect_x a + rect_width a) (rect_x b + rect_width b);
          bottom = min (rect_y a + rect_height a) (rect_y b + rect_height b)
      in if right \<le> left \<or> bottom \<le> top then 0
         else (let intersection = (right - left) * (bottom - top);
                   areaA = rect_width a * rect_height a;
                   areaB = rect_width b * rect_height b;
                   union = areaA + areaB - intersection
               in if union \<le> 0 then 0 else intersection / union))"

text \<open>
  Two rectangles are disjoint when one lies entirely to one side of the other
  (edges may touch).
\<close>

definition disjointRects :: "Rect \<Rightarrow> Rect \<Rightarrow> bool" where
  "disjointRects a b =
     (rect_x a + rect_width a \<le> rect_x b \<or> rect_x b + rect_width b \<le> rect_x a \<or>
      rect_y a + rect_height a \<le> rect_y b \<or> rect_y b + rect_height b \<le> rect_y a)"

text \<open>
  The open point set of a rectangle. Two rectangles share no area exactly when these sets
  are disjoint.
\<close>

definition rectInterior :: "Rect \<Rightarrow> (real \<times> real) set" where
  "rectInterior r =
     {(px, py). rect_x r < px \<and> px < rect_x r + rect_width r
                \<and> rect_y r < py \<and> py < rect_y r + rect_height r}"

text \<open>
  \<^verbatim>\<open>computeIoU\<close> with the rounding of each of its operations. \<^const>\<open>computeIoU\<close> above is
  the same function in exact arithmetic.
\<close>

definition computeIoU_double :: "Rect \<Rightarrow> Rect \<Rightarrow> real" where
  "computeIoU_double a b =
     (let left = max (rect_x a) (rect_x b);
          top = max (rect_y a) (rect_y b);
          right = min (fl (rect_x a + rect_width a)) (fl (rect_x b + rect_width b));
          bottom = min (fl (rect_y a + rect_height a)) (fl (rect_y b + rect_height b))
      in if right \<le> left \<or> bottom \<le> top then 0
         else (let intersection = fl (fl (right - left) * fl (bottom - top));
                   areaA = fl (rect_width a * rect_height a);
                   areaB = fl (rect_width b * rect_height b);
                   union = fl (fl (areaA + areaB) - intersection)
               in if union \<le> 0 then 0 else fl (intersection / union)))"

text \<open>A rectangle whose four fields are doubles, as every rectangle of a running program.\<close>

definition doubleRect :: "Rect \<Rightarrow> bool" where
  "doubleRect r =
     (isDouble (rect_x r) \<and> isDouble (rect_y r) \<and> isDouble (rect_width r) \<and> isDouble (rect_height r))"

text \<open>
  The width and the height that \<^verbatim>\<open>computeIoU\<close> computes for the intersection of a
  rectangle with itself, \<open>(x + width) - x\<close> and \<open>(y + height) - y\<close>, are the width and the
  height of the rectangle.
\<close>

definition edgesRecovered :: "Rect \<Rightarrow> bool" where
  "edgesRecovered r =
     (fl (fl (rect_x r + rect_width r) - rect_x r) = rect_width r
      \<and> fl (fl (rect_y r + rect_height r) - rect_y r) = rect_height r)"

text \<open>
  Two rectangles of positive area: the rectangle written \<^verbatim>\<open>{x: 0.1, y: 0.1, width: 0.1,
  height: 0.25}\<close> in a program, and a unit square at \<open>x = 2 ^ 53\<close>.
\<close>

definition tenthRect :: Rect where
  "tenthRect = \<lparr>rect_x = fl 0.1, rect_y = fl 0.1, rect_width = fl 0.1, rect_height = 0.25\<rparr>"

definition farRect :: Rect where
  "farRect = \<lparr>rect_x = 2 ^ 53, rect_y = 0, rect_width = 1, rect_height = 1\<rparr>"

subsection \<open>GreedyMatcher\<close>

text \<open>The entries of the local array \<^verbatim>\<open>candidates\<close> of \<^verbatim>\<open>greedyMatch\<close>.\<close>

record Candidate =
  truthIndex :: nat
  predictionIndex :: nat
  iou :: real

text \<open>
  The two nested \<^verbatim>\<open>forEach\<close> loops: truths outermost, predictions innermost, each with
  its index; a pair on different pages is skipped, a pair below the threshold is not
  pushed.
\<close>

definition collectCandidates ::
  "FieldAnnotation Instance list \<Rightarrow> FieldPrediction Instance list \<Rightarrow> real \<Rightarrow> Candidate list" where
  "collectCandidates truths predictions th =
     concat (map (\<lambda>(tIdx, truth).
       concat (map (\<lambda>(pIdx, prediction).
         if pageIndex truth \<noteq> pageIndex prediction then []
         else (let i = computeIoU (field_rect (field truth)) (field_rect (field prediction))
               in if th \<le> i then [\<lparr>truthIndex = tIdx, predictionIndex = pIdx, iou = i\<rparr>]
                  else []))
         (enumerate 0 predictions)))
       (enumerate 0 truths))"

text \<open>
  \<^verbatim>\<open>candidates.sort((a, b) => b.iou - a.iou)\<close>: a stable sort, descending in the IoU.
  \<^const>\<open>sort_key\<close> is the stable insertion sort of the list library.
\<close>

definition sortCandidates :: "Candidate list \<Rightarrow> Candidate list" where
  "sortCandidates cs = sort_key (\<lambda>c. - iou c) cs"

definition makeMatch ::
  "FieldType \<Rightarrow> FieldAnnotation Instance list \<Rightarrow> FieldPrediction Instance list \<Rightarrow> Candidate
     \<Rightarrow> MatchRecord" where
  "makeMatch ty truths predictions c =
     (let truthInstance = truths ! truthIndex c;
          predictionInstance = predictions ! predictionIndex c
      in \<lparr>match_type = ty, match_pageIndex = pageIndex truthInstance,
          match_truth = truthInstance, match_prediction = predictionInstance,
          match_iou = iou c\<rparr>)"

text \<open>
  The \<^verbatim>\<open>for (const candidate of candidates)\<close> loop with its three accumulators
  \<^verbatim>\<open>matchedTruth\<close>, \<^verbatim>\<open>matchedPredictions\<close> and \<^verbatim>\<open>matches\<close>.
\<close>

fun acceptCandidates ::
  "FieldType \<Rightarrow> FieldAnnotation Instance list \<Rightarrow> FieldPrediction Instance list \<Rightarrow> Candidate list
     \<Rightarrow> nat set \<Rightarrow> nat set \<Rightarrow> MatchRecord list \<Rightarrow> nat set \<times> nat set \<times> MatchRecord list" where
  "acceptCandidates ty truths predictions [] matchedTruth matchedPredictions ms =
     (matchedTruth, matchedPredictions, ms)"
| "acceptCandidates ty truths predictions (c # cs) matchedTruth matchedPredictions ms =
     (if truthIndex c \<in> matchedTruth \<or> predictionIndex c \<in> matchedPredictions
      then acceptCandidates ty truths predictions cs matchedTruth matchedPredictions ms
      else acceptCandidates ty truths predictions cs
             (insert (truthIndex c) matchedTruth) (insert (predictionIndex c) matchedPredictions)
             (ms @ [makeMatch ty truths predictions c]))"

text \<open>
  The candidates that the loop accepts, in order. A \<^verbatim>\<open>MatchRecord\<close> holds the two
  instances but not their positions; this list keeps the positions, which identify the
  instance objects.
\<close>

fun acceptedCandidates :: "Candidate list \<Rightarrow> nat set \<Rightarrow> nat set \<Rightarrow> Candidate list" where
  "acceptedCandidates [] matchedTruth matchedPredictions = []"
| "acceptedCandidates (c # cs) matchedTruth matchedPredictions =
     (if truthIndex c \<in> matchedTruth \<or> predictionIndex c \<in> matchedPredictions
      then acceptedCandidates cs matchedTruth matchedPredictions
      else c # acceptedCandidates cs
             (insert (truthIndex c) matchedTruth) (insert (predictionIndex c) matchedPredictions))"

text \<open>\<^verbatim>\<open>xs.filter((_, index) => !matched.has(index))\<close>.\<close>

definition unmatched :: "nat set \<Rightarrow> 'a list \<Rightarrow> 'a list" where
  "unmatched matched xs = map snd (filter (\<lambda>(index, _). index \<notin> matched) (enumerate 0 xs))"

definition greedyMatch ::
  "FieldType \<Rightarrow> FieldAnnotation Instance list \<Rightarrow> FieldPrediction Instance list \<Rightarrow> real
     \<Rightarrow> MatchRun" where
  "greedyMatch ty truths predictions th =
     (case acceptCandidates ty truths predictions
             (sortCandidates (collectCandidates truths predictions th)) {} {} [] of
        (matchedTruth, matchedPredictions, ms) \<Rightarrow>
          \<lparr>matches = ms,
           falsePositives = unmatched matchedPredictions predictions,
           falseNegatives = unmatched matchedTruth truths\<rparr>)"

text \<open>The positions of the candidates accepted by a run of \<^const>\<open>greedyMatch\<close>.\<close>

definition acceptedPairs ::
  "FieldAnnotation Instance list \<Rightarrow> FieldPrediction Instance list \<Rightarrow> real \<Rightarrow> Candidate list" where
  "acceptedPairs truths predictions th =
     acceptedCandidates (sortCandidates (collectCandidates truths predictions th)) {} {}"

subsection \<open>Metrics\<close>

text \<open>
  The three local constants of \<^verbatim>\<open>calcMetrics\<close>, before \<^const>\<open>clamp\<close> is applied. The
  counts are array lengths, hence natural numbers.
\<close>

definition calcPrecision :: "'a TypeCounts_scheme \<Rightarrow> jsnum" where
  "calcPrecision counts =
     (if tp counts + fp counts = 0 then Fin 0
      else js_div (Fin (real (tp counts))) (Fin (real (tp counts + fp counts))))"

definition calcRecall :: "'a TypeCounts_scheme \<Rightarrow> jsnum" where
  "calcRecall counts =
     (if tp counts + fn counts = 0 then Fin 0
      else js_div (Fin (real (tp counts))) (Fin (real (tp counts + fn counts))))"

definition calcF1 :: "'a TypeCounts_scheme \<Rightarrow> jsnum" where
  "calcF1 counts =
     (let denom = js_add (calcPrecision counts) (calcRecall counts)
      in if denom = Fin 0 then Fin 0
         else js_div (js_mul (js_mul (Fin 2) (calcPrecision counts)) (calcRecall counts)) denom)"

definition calcMetrics :: "'a TypeCounts_scheme \<Rightarrow> TypeMetrics" where
  "calcMetrics counts =
     \<lparr>tp = tp counts, fp = fp counts, fn = fn counts,
      precision = clamp (calcPrecision counts),
      recall = clamp (calcRecall counts),
      f1 = clamp (calcF1 counts)\<rparr>"

definition aggregateMetrics :: "'a TypeCounts_scheme \<Rightarrow> AggregateMetrics" where
  "aggregateMetrics counts =
     (let metrics = calcMetrics counts
      in \<lparr>tp = tp counts, fp = fp counts, fn = fn counts,
          precision = precision metrics, recall = recall metrics, f1 = f1 metrics,
          support = tp counts + fn counts,
          predicted = tp counts + fp counts\<rparr>)"

subsection \<open>Evaluation of a document\<close>

text \<open>An absent (\<^verbatim>\<open>null\<close> or \<^verbatim>\<open>undefined\<close>) truth document is \<^const>\<open>None\<close>.\<close>

definition flattenTruth :: "DocumentAnnotation option \<Rightarrow> FieldAnnotation Instance list" where
  "flattenTruth annotation =
     (case annotation of
        None \<Rightarrow> []
      | Some a \<Rightarrow>
          concat (map (\<lambda>page. map (\<lambda>f. \<lparr>pageIndex = page_pageIndex page, field = f\<rparr>)
                                  (page_fields page))
                      (doc_pages a)))"

definition flattenPredictions :: "DetectionOutput \<Rightarrow> FieldPrediction Instance list" where
  "flattenPredictions output =
     concat (map (\<lambda>page. map (\<lambda>f. \<lparr>pageIndex = ppage_pageIndex page, field = f\<rparr>)
                             (ppage_fields page))
                 (out_pages output))"

text \<open>
  \<^verbatim>\<open>activeTypes\<close> is a \<^verbatim>\<open>Set\<close>, iterated in insertion order: a type is appended when it
  is added for the first time.
\<close>

definition addType :: "FieldType list \<Rightarrow> FieldType \<Rightarrow> FieldType list" where
  "addType types ty = (if ty \<in> set types then types else types @ [ty])"

definition activeTypesOf ::
  "FieldAnnotation Instance list \<Rightarrow> FieldPrediction Instance list \<Rightarrow> FieldType list" where
  "activeTypesOf truths predictions =
     foldl addType (foldl addType [] (map (\<lambda>i. field_type (field i)) truths))
       (map (\<lambda>i. field_type (field i)) predictions)"

text \<open>
  The variables that the loop over the active types updates. (\<^verbatim>\<open>perTypeCounts\<close> is
  written but never read and is left out.)
\<close>

record EvalState =
  es_perType :: "FieldType \<rightharpoonup> TypeMetrics"
  es_matches :: "MatchRecord list"
  es_falsePositives :: "FieldPrediction Instance list"
  es_falseNegatives :: "FieldAnnotation Instance list"
  es_microCounts :: TypeCounts
  es_macroPrecision :: real
  es_macroRecall :: real
  es_macroF1 :: real
  es_macroTypes :: nat

definition initialEvalState :: EvalState where
  "initialEvalState =
     \<lparr>es_perType = Map.empty, es_matches = [], es_falsePositives = [], es_falseNegatives = [],
      es_microCounts = \<lparr>tp = 0, fp = 0, fn = 0\<rparr>,
      es_macroPrecision = 0, es_macroRecall = 0, es_macroF1 = 0, es_macroTypes = 0\<rparr>"

text \<open>
  The run of the matcher for one type: \<^verbatim>\<open>typeTruths\<close>, \<^verbatim>\<open>typePredictions\<close> and
  \<^verbatim>\<open>typeRun\<close> of the loop body.
\<close>

definition typeRunOf ::
  "FieldAnnotation Instance list \<Rightarrow> FieldPrediction Instance list \<Rightarrow> real \<Rightarrow> FieldType
     \<Rightarrow> MatchRun" where
  "typeRunOf truths predictions th ty =
     (let typeTruths = filter (\<lambda>i. field_type (field i) = ty) truths;
          typePredictions = filter (\<lambda>i. field_type (field i) = ty) predictions
      in greedyMatch ty typeTruths typePredictions th)"

text \<open>The local \<^verbatim>\<open>counts\<close> of the loop body: the lengths of the three lists of the run.\<close>

definition countsOfRun :: "'a MatchRun_scheme \<Rightarrow> TypeCounts" where
  "countsOfRun typeRun =
     \<lparr>tp = length (matches typeRun),
      fp = length (falsePositives typeRun),
      fn = length (falseNegatives typeRun)\<rparr>"

text \<open>One iteration of \<^verbatim>\<open>for (const type of activeTypes)\<close>.\<close>

definition evalType ::
  "FieldAnnotation Instance list \<Rightarrow> FieldPrediction Instance list \<Rightarrow> real
     \<Rightarrow> EvalState \<Rightarrow> FieldType \<Rightarrow> EvalState" where
  "evalType truths predictions th s ty =
     (let typeRun = typeRunOf truths predictions th ty;
          counts = countsOfRun typeRun;
          metrics = calcMetrics counts
      in \<lparr>es_perType = (es_perType s)(ty \<mapsto> metrics),
          es_matches = es_matches s @ matches typeRun,
          es_falsePositives = es_falsePositives s @ falsePositives typeRun,
          es_falseNegatives = es_falseNegatives s @ falseNegatives typeRun,
          es_microCounts =
            \<lparr>tp = tp (es_microCounts s) + tp counts,
             fp = fp (es_microCounts s) + fp counts,
             fn = fn (es_microCounts s) + fn counts\<rparr>,
          es_macroPrecision = es_macroPrecision s + precision metrics,
          es_macroRecall = es_macroRecall s + recall metrics,
          es_macroF1 = es_macroF1 s + f1 metrics,
          es_macroTypes = es_macroTypes s + 1\<rparr>)"

text \<open>
  \<^verbatim>\<open>evaluateDetectorOutput(annotations, detections, threshold = 0.5)\<close>; an omitted
  threshold is \<^const>\<open>None\<close>.
\<close>

definition evaluateDetectorOutput ::
  "DocumentAnnotation option \<Rightarrow> DetectionOutput \<Rightarrow> real option \<Rightarrow> EvaluationReport" where
  "evaluateDetectorOutput annotations detections threshold_arg =
     (let th = (case threshold_arg of None \<Rightarrow> 0.5 | Some t \<Rightarrow> t);
          truths = flattenTruth annotations;
          predictions = flattenPredictions detections;
          activeTypes = activeTypesOf truths predictions;
          s = foldl (evalType truths predictions th) initialEvalState activeTypes;
          microCounts = es_microCounts s;
          macroTypes = es_macroTypes s;
          macroDenominator = (if macroTypes = 0 then 1 else macroTypes)
      in \<lparr>matches = es_matches s,
          falsePositives = es_falsePositives s,
          falseNegatives = es_falseNegatives s,
          report_documentId = out_documentId detections,
          report_threshold = th,
          perType = es_perType s,
          micro = aggregateMetrics microCounts,
          macro =
            \<lparr>tp = tp microCounts, fp = fp microCounts, fn = fn microCounts,
             precision = (if macroTypes = 0 then 0
                          else es_macroPrecision s / real macroDenominator),
             recall = (if macroTypes = 0 then 0 else es_macroRecall s / real macroDenominator),
             f1 = (if macroTypes = 0 then 0 else es_macroF1 s / real macroDenominator),
             support = length truths,
             predicted = length predictions\<rparr>,
          report_summary = out_summary detections\<rparr>)"


text \<open>
  Names for what the report is compared with: the threshold in force, the active types of
  a pair of documents, the metrics that the loop stores for one type, and the unweighted
  mean of a list of values (0 for the empty list).
\<close>

definition thresholdOf :: "real option \<Rightarrow> real" where
  "thresholdOf threshold_arg = (case threshold_arg of None \<Rightarrow> 0.5 | Some t \<Rightarrow> t)"

definition activeTypesOfDocs :: "DocumentAnnotation option \<Rightarrow> DetectionOutput \<Rightarrow> FieldType list" where
  "activeTypesOfDocs annotations detections =
     activeTypesOf (flattenTruth annotations) (flattenPredictions detections)"

definition typeMetricsOf ::
  "DocumentAnnotation option \<Rightarrow> DetectionOutput \<Rightarrow> real option \<Rightarrow> FieldType \<Rightarrow> TypeMetrics" where
  "typeMetricsOf annotations detections threshold_arg ty =
     calcMetrics (countsOfRun
       (typeRunOf (flattenTruth annotations) (flattenPredictions detections)
          (thresholdOf threshold_arg) ty))"


subsection \<open>The synthetic documents of the smoke test\<close>

text \<open>\<^verbatim>\<open>annotations\<close> and \<^verbatim>\<open>detections\<close> of \<^verbatim>\<open>benchmarks/detection/evaluate_smoke.ts\<close>.\<close>

definition smokeTruthText :: FieldAnnotation where
  "smokeTruthText =
     \<lparr>field_id = None, field_type = Text,
      field_rect = \<lparr>rect_x = 0.1, rect_y = 0.2, rect_width = 0.3, rect_height = 0.05\<rparr>\<rparr>"

definition smokeTruthCheckbox :: FieldAnnotation where
  "smokeTruthCheckbox =
     \<lparr>field_id = None, field_type = Checkbox,
      field_rect = \<lparr>rect_x = 0.6, rect_y = 0.4, rect_width = 0.05, rect_height = 0.05\<rparr>\<rparr>"

definition smokePredictionNear :: FieldPrediction where
  "smokePredictionNear =
     \<lparr>field_id = None, field_type = Text,
      field_rect = \<lparr>rect_x = 0.105, rect_y = 0.205, rect_width = 0.29, rect_height = 0.055\<rparr>,
      field_confidence = Some 0.8\<rparr>"

definition smokePredictionFar :: FieldPrediction where
  "smokePredictionFar =
     \<lparr>field_id = None, field_type = Text,
      field_rect = \<lparr>rect_x = 0.5, rect_y = 0.5, rect_width = 0.1, rect_height = 0.05\<rparr>,
      field_confidence = Some 0.4\<rparr>"

definition smokeAnnotations :: DocumentAnnotation where
  "smokeAnnotations =
     \<lparr>doc_documentId = ''synthetic'',
      doc_pages = [\<lparr>page_pageIndex = 0, page_fields = [smokeTruthText, smokeTruthCheckbox]\<rparr>]\<rparr>"

definition smokeDetections :: DetectionOutput where
  "smokeDetections =
     \<lparr>out_documentId = ''synthetic'',
      out_pages = [\<lparr>ppage_pageIndex = 0,
                    ppage_fields = [smokePredictionNear, smokePredictionFar]\<rparr>],
      out_summary = None\<rparr>"

section \<open>Field detector\<close>

text \<open>
  The repository holds two versions of the class \<^verbatim>\<open>PDFFieldDetector\<close>:
  \<^verbatim>\<open>src/lib/detectors/rasterHeuristics.ts\<close>, used by the benchmarks, and
  \<^verbatim>\<open>src/lib/pdfFieldDetection.ts\<close>, used by the editor. Their methods have the same names;
  the prefix \<open>rh_\<close> marks the former and \<open>pfd_\<close> the latter. What both share is
  defined once.
\<close>

datatype ElementType =
  EText | ECheckbox | ERadio | ESignature | EBox | ELine | EBracket | ECircle

record DetectedElement =
  el_type :: ElementType
  el_rect :: Rect
  confidence :: real

record DetectionOptions =
  minTextFieldHeight :: real
  maxFieldHeight :: real
  minCheckboxSize :: real
  maxCheckboxSize :: real
  minRadioSize :: real
  maxRadioSize :: real
  mergeThreshold :: real
  confidenceThreshold :: real

text \<open>The defaults of the constructor (the same in both versions).\<close>

definition defaultOptions :: DetectionOptions where
  "defaultOptions =
     \<lparr>minTextFieldHeight = 12, maxFieldHeight = 200, minCheckboxSize = 8,
      maxCheckboxSize = 20, minRadioSize = 8, maxRadioSize = 16, mergeThreshold = 5,
      confidenceThreshold = 0.3\<rparr>"

text \<open>The entries \<^verbatim>\<open>{text, rect}\<close> of the optional argument \<^verbatim>\<open>textElements\<close>.\<close>

record TextBox =
  tb_text :: string
  tb_rect :: Rect

text \<open>\<^verbatim>\<open>ImageData\<close>: a \<^verbatim>\<open>Uint8ClampedArray\<close> of RGBA bytes and the dimensions.\<close>

record ImageData =
  img_data :: "8 word list"
  img_width :: nat
  img_height :: nat

subsection \<open>Reading a pixel\<close>

text \<open>
  \<^verbatim>\<open>data[i]\<close> on a typed array, for a number \<open>i\<close>: the byte as a number when \<open>i\<close> is an
  integer inside the array, and \<^verbatim>\<open>undefined\<close> otherwise (outside the array, or for an \<open>i\<close>
  that is not an integer), which every arithmetic operator turns into \<^verbatim>\<open>NaN\<close>.
\<close>

definition readByte :: "8 word list \<Rightarrow> real \<Rightarrow> jsnum" where
  "readByte data i =
     (if of_int \<lfloor>i\<rfloor> = i \<and> 0 \<le> i \<and> i < real (length data)
      then Fin (real (unat (data ! nat \<lfloor>i\<rfloor>))) else NaN)"

text \<open>
  \<^verbatim>\<open>(y * width + x) * 4\<close>, the index of the first byte of a pixel, in both versions. The
  parameters \<^verbatim>\<open>x\<close>, \<^verbatim>\<open>y\<close> and \<^verbatim>\<open>width\<close> are of type \<^verbatim>\<open>number\<close>.
\<close>

definition pixelIndex :: "real \<Rightarrow> real \<Rightarrow> real \<Rightarrow> real" where
  "pixelIndex px py w = fl (fl (fl (py * w) + px) * 4)"

definition rh_getPixelBrightness :: "8 word list \<Rightarrow> real \<Rightarrow> real \<Rightarrow> real \<Rightarrow> jsnum" where
  "rh_getPixelBrightness data px py w =
     (let offset = pixelIndex px py w;
          r = readByte data offset;
          g = readByte data (fl (offset + 1));
          b = readByte data (fl (offset + 2))
      in jsRound (js_add
           (jsRound (js_add (jsRound (js_mul (Fin (fl 0.299)) r))
                            (jsRound (js_mul (Fin (fl 0.587)) g))))
           (jsRound (js_mul (Fin (fl 0.114)) b))))"

definition pfd_getPixelBrightness :: "8 word list \<Rightarrow> real \<Rightarrow> real \<Rightarrow> real \<Rightarrow> jsnum" where
  "pfd_getPixelBrightness data px py w =
     (if px < 0 \<or> py < 0 \<or> w \<le> px then Fin 255
      else (let index = pixelIndex px py w
            in if fl (real (length data) - 2) \<le> index then Fin 255
               else jsRound (js_div
                      (jsRound (js_add
                         (jsRound (js_add (readByte data index) (readByte data (fl (index + 1)))))
                         (readByte data (fl (index + 2)))))
                      (Fin 3))))"

subsection \<open>Size filter\<close>

definition rh_filterByMinimumSize ::
  "DetectionOptions \<Rightarrow> DetectedElement list \<Rightarrow> real \<Rightarrow> DetectedElement list" where
  "rh_filterByMinimumSize opts elements pageHeight =
     (let minHeight = max (minTextFieldHeight opts) (pageHeight * 0.01);
          minWidth = minHeight * 2
      in filter (\<lambda>element.
           if rect_height (el_rect element) < minHeight then False
           else if rect_width (el_rect element) < minWidth \<and> el_type element = EText then False
           else True) elements)"

definition pfd_filterByMinimumSize :: "DetectedElement list \<Rightarrow> real \<Rightarrow> DetectedElement list" where
  "pfd_filterByMinimumSize elements pageHeight =
     (let minTextFieldHeight' = max 12 (pageHeight * 0.015);
          minCheckboxSize' = max 8 (pageHeight * 0.01);
          minRadioSize' = max 8 (pageHeight * 0.01);
          minSignatureHeight = max 15 (pageHeight * 0.02)
      in filter (\<lambda>element.
           (let w = rect_width (el_rect element); h = rect_height (el_rect element)
            in case el_type element of
                 EText \<Rightarrow> minTextFieldHeight' \<le> h \<and> 20 \<le> w
               | EBox \<Rightarrow> minTextFieldHeight' \<le> h \<and> 20 \<le> w
               | ECheckbox \<Rightarrow> minCheckboxSize' \<le> min w h \<and> max w h \<le> minCheckboxSize' * 3
               | ERadio \<Rightarrow> minRadioSize' \<le> min w h \<and> \<bar>w - h\<bar> \<le> max w h * 0.3
               | ESignature \<Rightarrow> minSignatureHeight \<le> h \<and> minSignatureHeight * 2 \<le> w
               | ELine \<Rightarrow> 30 \<le> w \<and> 1 \<le> h
               | EBracket \<Rightarrow> True
               | ECircle \<Rightarrow> True)) elements)"

subsection \<open>Text-overlap filter\<close>

text \<open>
  In \<^verbatim>\<open>rasterHeuristics\<close> the ratio is the intersection over the union, and an element is
  dropped as soon as one text box gives a ratio above 0.3. The arithmetic is that of the
  source, each operation rounded; the literal \<^verbatim>\<open>0.3\<close> is the double \<open>fl 0.3\<close>.
\<close>

definition rh_calculateOverlapRatio :: "Rect \<Rightarrow> Rect \<Rightarrow> real" where
  "rh_calculateOverlapRatio rect1 rect2 =
     (let x1 = max (rect_x rect1) (rect_x rect2);
          y1 = max (rect_y rect1) (rect_y rect2);
          x2 = min (fl (rect_x rect1 + rect_width rect1)) (fl (rect_x rect2 + rect_width rect2));
          y2 = min (fl (rect_y rect1 + rect_height rect1)) (fl (rect_y rect2 + rect_height rect2))
      in if x2 \<le> x1 \<or> y2 \<le> y1 then 0
         else (let overlapArea = fl (fl (x2 - x1) * fl (y2 - y1));
                   area1 = fl (rect_width rect1 * rect_height rect1);
                   area2 = fl (rect_width rect2 * rect_height rect2);
                   unionArea = fl (fl (area1 + area2) - overlapArea)
               in if 0 < unionArea then fl (overlapArea / unionArea) else 0))"

text \<open>The body of the filter callback: \<^const>\<open>False\<close> is the early \<^verbatim>\<open>return false\<close>.\<close>

fun rh_keepElement :: "DetectedElement \<Rightarrow> TextBox list \<Rightarrow> bool" where
  "rh_keepElement element [] = True"
| "rh_keepElement element (textElement # rest) =
     (if fl 0.3 < rh_calculateOverlapRatio (el_rect element) (tb_rect textElement) then False
      else rh_keepElement element rest)"

definition rh_filterTextOverlaps :: "DetectedElement list \<Rightarrow> TextBox list \<Rightarrow> DetectedElement list" where
  "rh_filterTextOverlaps elements textElements =
     filter (\<lambda>element. rh_keepElement element textElements) elements"

text \<open>
  In \<^verbatim>\<open>pdfFieldDetection\<close> the ratio is the intersection over the area of the first
  rectangle (the detection), again with each operation rounded.
\<close>

definition pfd_calculateRectangleOverlapRatio :: "Rect \<Rightarrow> Rect \<Rightarrow> real" where
  "pfd_calculateRectangleOverlapRatio rect1 rect2 =
     (let x1 = max (rect_x rect1) (rect_x rect2);
          y1 = max (rect_y rect1) (rect_y rect2);
          x2 = min (fl (rect_x rect1 + rect_width rect1)) (fl (rect_x rect2 + rect_width rect2));
          y2 = min (fl (rect_y rect1 + rect_height rect1)) (fl (rect_y rect2 + rect_height rect2))
      in if x2 \<le> x1 \<or> y2 \<le> y1 then 0
         else (let overlapArea = fl (fl (x2 - x1) * fl (y2 - y1));
                   rect1Area = fl (rect_width rect1 * rect_height rect1)
               in if 0 < rect1Area then fl (overlapArea / rect1Area) else 0))"

definition pfd_isRectangleContainedWithin :: "Rect \<Rightarrow> Rect \<Rightarrow> bool" where
  "pfd_isRectangleContainedWithin rect1 rect2 =
     (rect_x rect2 \<le> rect_x rect1 \<and> rect_y rect2 \<le> rect_y rect1 \<and>
      fl (rect_x rect1 + rect_width rect1) \<le> fl (rect_x rect2 + rect_width rect2) \<and>
      fl (rect_y rect1 + rect_height rect1) \<le> fl (rect_y rect2 + rect_height rect2))"

fun pfd_keepElement :: "DetectedElement \<Rightarrow> TextBox list \<Rightarrow> bool" where
  "pfd_keepElement element [] = True"
| "pfd_keepElement element (textEl # rest) =
     (let overlapRatio = pfd_calculateRectangleOverlapRatio (el_rect element) (tb_rect textEl)
      in if fl 0.4 < overlapRatio then
           (if pfd_isRectangleContainedWithin (el_rect element) (tb_rect textEl) then False
            else if fl 0.7 < overlapRatio then False
            else pfd_keepElement element rest)
         else pfd_keepElement element rest)"

definition pfd_filterTextOverlaps :: "DetectedElement list \<Rightarrow> TextBox list \<Rightarrow> DetectedElement list" where
  "pfd_filterTextOverlaps elements textElements =
     filter (\<lambda>element. pfd_keepElement element textElements) elements"

text \<open>
  The words of the specification, for comparison, in double arithmetic: the area that two
  rectangles share (the product of the lengths of the two overlaps, each 0 when there is
  none), the area of a rectangle, and the condition under which one text box is said to
  make the filter drop a detection (overlap above 0.4 while contained, or overlap above
  0.7).
\<close>

definition intersectionArea :: "Rect \<Rightarrow> Rect \<Rightarrow> real" where
  "intersectionArea a b =
     fl (max 0 (fl (min (fl (rect_x a + rect_width a)) (fl (rect_x b + rect_width b))
                     - max (rect_x a) (rect_x b)))
         * max 0 (fl (min (fl (rect_y a + rect_height a)) (fl (rect_y b + rect_height b))
                       - max (rect_y a) (rect_y b))))"

definition rectArea :: "Rect \<Rightarrow> real" where
  "rectArea a = fl (rect_width a * rect_height a)"

definition droppedBecauseOf :: "Rect \<Rightarrow> Rect \<Rightarrow> bool" where
  "droppedBecauseOf detection textBox =
     ((fl 0.4 < pfd_calculateRectangleOverlapRatio detection textBox
         \<and> pfd_isRectangleContainedWithin detection textBox)
      \<or> fl 0.7 < pfd_calculateRectangleOverlapRatio detection textBox)"

subsection \<open>Adjacency merge\<close>

text \<open>\<^verbatim>\<open>shouldMerge\<close> and \<^verbatim>\<open>mergeRects\<close> of \<^verbatim>\<open>rasterHeuristics\<close>.\<close>

definition rh_shouldMerge :: "DetectionOptions \<Rightarrow> DetectedElement \<Rightarrow> DetectedElement \<Rightarrow> bool" where
  "rh_shouldMerge opts a b =
     (if el_type a \<noteq> el_type b then False
      else (let ar = el_rect a; br = el_rect b;
                distanceX = \<bar>rect_x ar - (rect_x br + rect_width br)\<bar>;
                distanceY = \<bar>rect_y ar - (rect_y br + rect_height br)\<bar>;
                horizontalOverlap =
                  min (rect_x ar + rect_width ar) (rect_x br + rect_width br)
                    - max (rect_x ar) (rect_x br);
                verticalOverlap =
                  min (rect_y ar + rect_height ar) (rect_y br + rect_height br)
                    - max (rect_y ar) (rect_y br);
                closeHorizontally = distanceX < mergeThreshold opts;
                closeVertically = distanceY < mergeThreshold opts;
                overlappingHorizontally = - mergeThreshold opts < horizontalOverlap;
                overlappingVertically = - mergeThreshold opts < verticalOverlap
            in (closeHorizontally \<and> overlappingVertically)
               \<or> (closeVertically \<and> overlappingHorizontally)))"

definition rh_mergeRects :: "Rect \<Rightarrow> Rect \<Rightarrow> Rect" where
  "rh_mergeRects a b =
     (let x' = min (rect_x a) (rect_x b);
          y' = min (rect_y a) (rect_y b);
          maxX = max (rect_x a + rect_width a) (rect_x b + rect_width b);
          maxY = max (rect_y a + rect_height a) (rect_y b + rect_height b)
      in \<lparr>rect_x = x', rect_y = y', rect_width = maxX - x', rect_height = maxY - y'\<rparr>)"

text \<open>
  \<^verbatim>\<open>mergeAdjacentFields\<close> of \<^verbatim>\<open>rasterHeuristics\<close>. The array \<^verbatim>\<open>visited\<close> is a list of
  flags. One step of the inner loop (index \<open>j\<close>) updates \<^verbatim>\<open>current\<close> and \<^verbatim>\<open>visited\<close>;
  one step of the outer loop (index \<open>i\<close>) updates \<^verbatim>\<open>merged\<close> and \<^verbatim>\<open>visited\<close>. Both indices
  stay below the length of \<^verbatim>\<open>elements\<close>.
\<close>

fun rh_mergeInner ::
  "DetectionOptions \<Rightarrow> DetectedElement list \<Rightarrow> DetectedElement \<times> bool list \<Rightarrow> nat
     \<Rightarrow> DetectedElement \<times> bool list" where
  "rh_mergeInner opts elements (current, visited) j =
     (if visited ! j then (current, visited)
      else (let candidate = elements ! j
            in if rh_shouldMerge opts current candidate
               then (current\<lparr>el_rect := rh_mergeRects (el_rect current) (el_rect candidate),
                             confidence := max (confidence current) (confidence candidate) * 0.9\<rparr>,
                     visited[j := True])
               else (current, visited)))"

fun rh_mergeOuter ::
  "DetectionOptions \<Rightarrow> DetectedElement list \<Rightarrow> DetectedElement list \<times> bool list \<Rightarrow> nat
     \<Rightarrow> DetectedElement list \<times> bool list" where
  "rh_mergeOuter opts elements (merged, visited) i =
     (if visited ! i then (merged, visited)
      else (case foldl (rh_mergeInner opts elements) (elements ! i, visited[i := True])
                   [Suc i ..< length elements] of
              (current, visited') \<Rightarrow> (merged @ [current], visited')))"

definition rh_mergeAdjacentFields :: "DetectionOptions \<Rightarrow> DetectedElement list \<Rightarrow> DetectedElement list" where
  "rh_mergeAdjacentFields opts elements =
     fst (foldl (rh_mergeOuter opts elements) ([], replicate (length elements) False)
            [0 ..< length elements])"

text \<open>\<^verbatim>\<open>areAdjacent\<close> and \<^verbatim>\<open>mergeRects\<close> of \<^verbatim>\<open>pdfFieldDetection\<close>.\<close>

definition pfd_areAdjacent :: "DetectionOptions \<Rightarrow> Rect \<Rightarrow> Rect \<Rightarrow> bool" where
  "pfd_areAdjacent opts rect1 rect2 =
     (let th = mergeThreshold opts;
          horizontalOverlap =
            max 0 (min (rect_x rect1 + rect_width rect1) (rect_x rect2 + rect_width rect2)
                     - max (rect_x rect1) (rect_x rect2));
          verticalDistance =
            \<bar>(rect_y rect1 + rect_height rect1 / 2) - (rect_y rect2 + rect_height rect2 / 2)\<bar>
      in if min (rect_width rect1) (rect_width rect2) * 0.5 < horizontalOverlap
            \<and> verticalDistance \<le> th
         then True
         else (let verticalOverlap =
                     max 0 (min (rect_y rect1 + rect_height rect1) (rect_y rect2 + rect_height rect2)
                              - max (rect_y rect1) (rect_y rect2));
                   horizontalDistance =
                     \<bar>(rect_x rect1 + rect_width rect1 / 2) - (rect_x rect2 + rect_width rect2 / 2)\<bar>
               in min (rect_height rect1) (rect_height rect2) * 0.5 < verticalOverlap
                  \<and> horizontalDistance \<le> th))"

text \<open>
  \<^verbatim>\<open>mergeRects\<close> is only called with at least two elements; \<^verbatim>\<open>Math.min(...)\<close> and
  \<^verbatim>\<open>Math.max(...)\<close> over the (non-empty) list are folds from its first entry. The value
  given for the empty list is never used.
\<close>

fun minOf :: "real list \<Rightarrow> real" where
  "minOf [] = 0"
| "minOf (v # vs) = foldl min v vs"

fun maxOf :: "real list \<Rightarrow> real" where
  "maxOf [] = 0"
| "maxOf (v # vs) = foldl max v vs"

definition pfd_mergeRects :: "DetectedElement list \<Rightarrow> DetectedElement" where
  "pfd_mergeRects elements =
     (let rects = map el_rect elements;
          minX = minOf (map rect_x rects);
          minY = minOf (map rect_y rects);
          maxX = maxOf (map (\<lambda>r. rect_x r + rect_width r) rects);
          maxY = maxOf (map (\<lambda>r. rect_y r + rect_height r) rects)
      in \<lparr>el_type = el_type (hd elements),
          el_rect = \<lparr>rect_x = minX, rect_y = minY,
                     rect_width = maxX - minX, rect_height = maxY - minY\<rparr>,
          confidence = maxOf (map confidence elements)\<rparr>)"

text \<open>
  \<^verbatim>\<open>mergeAdjacentFields\<close> of \<^verbatim>\<open>pdfFieldDetection\<close>, with the set \<^verbatim>\<open>used\<close> and the list
  \<^verbatim>\<open>toMerge\<close>; adjacency is always tested against the first element of the group.
\<close>

fun pfd_mergeInner ::
  "DetectionOptions \<Rightarrow> DetectedElement list \<Rightarrow> DetectedElement
     \<Rightarrow> DetectedElement list \<times> nat set \<Rightarrow> nat \<Rightarrow> DetectedElement list \<times> nat set" where
  "pfd_mergeInner opts elements current (toMerge, used) j =
     (if j \<in> used then (toMerge, used)
      else (let other = elements ! j
            in if el_type current = el_type other
                  \<and> pfd_areAdjacent opts (el_rect current) (el_rect other)
               then (toMerge @ [other], insert j used)
               else (toMerge, used)))"

fun pfd_mergeOuter ::
  "DetectionOptions \<Rightarrow> DetectedElement list \<Rightarrow> DetectedElement list \<times> nat set \<Rightarrow> nat
     \<Rightarrow> DetectedElement list \<times> nat set" where
  "pfd_mergeOuter opts elements (merged, used) i =
     (if i \<in> used then (merged, used)
      else (let current = elements ! i
            in case foldl (pfd_mergeInner opts elements current) ([current], insert i used)
                      [Suc i ..< length elements] of
                 (toMerge, used') \<Rightarrow>
                   (if 1 < length toMerge then (merged @ [pfd_mergeRects toMerge], used')
                    else (merged @ [current], used'))))"

definition pfd_mergeAdjacentFields :: "DetectionOptions \<Rightarrow> DetectedElement list \<Rightarrow> DetectedElement list" where
  "pfd_mergeAdjacentFields opts elements =
     fst (foldl (pfd_mergeOuter opts elements) ([], {}) [0 ..< length elements])"

text \<open>
  Two elements touch when the gap between them is 0 on one axis and they overlap on the
  other axis: \<open>touchesLeftOf a b\<close> when the right edge of \<open>a\<close> is the left edge of \<open>b\<close>,
  \<open>touchesAbove a b\<close> when the bottom edge of \<open>a\<close> is the top edge of \<open>b\<close>.
\<close>

definition overlapOnY :: "Rect \<Rightarrow> Rect \<Rightarrow> bool" where
  "overlapOnY a b =
     (max (rect_y a) (rect_y b) < min (rect_y a + rect_height a) (rect_y b + rect_height b))"

definition overlapOnX :: "Rect \<Rightarrow> Rect \<Rightarrow> bool" where
  "overlapOnX a b =
     (max (rect_x a) (rect_x b) < min (rect_x a + rect_width a) (rect_x b + rect_width b))"

definition touchesLeftOf :: "Rect \<Rightarrow> Rect \<Rightarrow> bool" where
  "touchesLeftOf a b = (rect_x a + rect_width a = rect_x b \<and> overlapOnY a b)"

definition touchesAbove :: "Rect \<Rightarrow> Rect \<Rightarrow> bool" where
  "touchesAbove a b = (rect_y a + rect_height a = rect_y b \<and> overlapOnX a b)"

definition touching :: "Rect \<Rightarrow> Rect \<Rightarrow> bool" where
  "touching a b =
     (touchesLeftOf a b \<or> touchesLeftOf b a \<or> touchesAbove a b \<or> touchesAbove b a)"

subsection \<open>The detection pipeline\<close>

text \<open>
  The five raster passes (\<^verbatim>\<open>detectTextFields\<close>, \<^verbatim>\<open>detectCheckboxes\<close>,
  \<^verbatim>\<open>detectRadioButtons\<close>, \<^verbatim>\<open>detectSignatureAreas\<close>, \<^verbatim>\<open>detectStandaloneLines\<close>) scan the
  pixels; they read \<^verbatim>\<open>this.options\<close> and their arguments and write nothing. The
  pipeline is modelled for arbitrary passes: each is a function of the options, the image
  and the page dimensions.
\<close>

type_synonym pass = "DetectionOptions \<Rightarrow> ImageData \<Rightarrow> real \<Rightarrow> real \<Rightarrow> DetectedElement list"

record Passes =
  detectTextFields :: pass
  detectCheckboxes :: pass
  detectRadioButtons :: pass
  detectSignatureAreas :: pass
  detectStandaloneLines :: pass

text \<open>
  In the sources the passes never read \<^verbatim>\<open>confidenceThreshold\<close>: it occurs only in the
  last line of \<^verbatim>\<open>detectFields\<close>.
\<close>

definition ignoresConfidenceThreshold :: "pass \<Rightarrow> bool" where
  "ignoresConfidenceThreshold p =
     (\<forall>opts t image w h. p (opts\<lparr>confidenceThreshold := t\<rparr>) image w h = p opts image w h)"

definition passesIgnoreConfidenceThreshold :: "Passes \<Rightarrow> bool" where
  "passesIgnoreConfidenceThreshold P =
     (ignoresConfidenceThreshold (detectTextFields P)
      \<and> ignoresConfidenceThreshold (detectCheckboxes P)
      \<and> ignoresConfidenceThreshold (detectRadioButtons P)
      \<and> ignoresConfidenceThreshold (detectSignatureAreas P)
      \<and> ignoresConfidenceThreshold (detectStandaloneLines P))"

text \<open>The array \<^verbatim>\<open>elements\<close> after the five \<^verbatim>\<open>push\<close> calls.\<close>

definition rawElements :: "Passes \<Rightarrow> DetectionOptions \<Rightarrow> ImageData \<Rightarrow> real \<Rightarrow> real \<Rightarrow> DetectedElement list" where
  "rawElements P opts imageData pageWidth pageHeight =
     detectTextFields P opts imageData pageWidth pageHeight
     @ detectCheckboxes P opts imageData pageWidth pageHeight
     @ detectRadioButtons P opts imageData pageWidth pageHeight
     @ detectSignatureAreas P opts imageData pageWidth pageHeight
     @ detectStandaloneLines P opts imageData pageWidth pageHeight"

text \<open>
  \<^verbatim>\<open>detectFields\<close>. The detector object holds \<^verbatim>\<open>this.options\<close>; the first statement
  assigns to \<^verbatim>\<open>this.options.maxFieldHeight\<close>, so the function takes the options and
  returns them, updated, with the result. An omitted \<^verbatim>\<open>textElements\<close> is \<^const>\<open>None\<close>.
\<close>

definition rh_mergedElements ::
  "Passes \<Rightarrow> DetectionOptions \<Rightarrow> ImageData \<Rightarrow> real \<Rightarrow> real \<Rightarrow> TextBox list option
     \<Rightarrow> DetectedElement list" where
  "rh_mergedElements P opts imageData pageWidth pageHeight textElements =
     (let elements = rawElements P opts imageData pageWidth pageHeight;
          sizeFilteredElements = rh_filterByMinimumSize opts elements pageHeight;
          textFilteredElements =
            (case textElements of
               Some tes \<Rightarrow> rh_filterTextOverlaps sizeFilteredElements tes
             | None \<Rightarrow> sizeFilteredElements)
      in rh_mergeAdjacentFields opts textFilteredElements)"

definition rh_detectFields ::
  "Passes \<Rightarrow> DetectionOptions \<Rightarrow> ImageData \<Rightarrow> real \<Rightarrow> real \<Rightarrow> TextBox list option
     \<Rightarrow> DetectionOptions \<times> DetectedElement list" where
  "rh_detectFields P opts imageData pageWidth pageHeight textElements =
     (let opts' = opts\<lparr>maxFieldHeight := min (maxFieldHeight opts) (pageHeight * 0.5)\<rparr>;
          mergedElements = rh_mergedElements P opts' imageData pageWidth pageHeight textElements
      in (opts', filter (\<lambda>element. confidenceThreshold opts' \<le> confidence element) mergedElements))"

definition pfd_mergedElements ::
  "Passes \<Rightarrow> DetectionOptions \<Rightarrow> ImageData \<Rightarrow> real \<Rightarrow> real \<Rightarrow> TextBox list option
     \<Rightarrow> DetectedElement list" where
  "pfd_mergedElements P opts imageData pageWidth pageHeight textElements =
     (let elements = rawElements P opts imageData pageWidth pageHeight;
          sizeFilteredElements = pfd_filterByMinimumSize elements pageHeight;
          textFilteredElements =
            (case textElements of
               Some tes \<Rightarrow> pfd_filterTextOverlaps sizeFilteredElements tes
             | None \<Rightarrow> sizeFilteredElements)
      in pfd_mergeAdjacentFields opts textFilteredElements)"

definition pfd_detectFields ::
  "Passes \<Rightarrow> DetectionOptions \<Rightarrow> ImageData \<Rightarrow> real \<Rightarrow> real \<Rightarrow> TextBox list option
     \<Rightarrow> DetectionOptions \<times> DetectedElement list" where
  "pfd_detectFields P opts imageData pageWidth pageHeight textElements =
     (let opts' = opts\<lparr>maxFieldHeight := min (maxFieldHeight opts) (pageHeight * 0.5)\<rparr>;
          mergedElements = pfd_mergedElements P opts' imageData pageWidth pageHeight textElements
      in (opts', filter (\<lambda>element. confidenceThreshold opts' \<le> confidence element) mergedElements))"

text \<open>
  Fixtures for concrete instances: passes whose text pass reports a given list of
  elements whatever the pixels and the other passes nothing, an all-white image, and two
  text elements of 50 by 20 pixels side by side, the first ending where the second begins.
\<close>

definition fixedPasses :: "DetectedElement list \<Rightarrow> Passes" where
  "fixedPasses es =
     \<lparr>detectTextFields = (\<lambda>opts image w h. es),
      detectCheckboxes = (\<lambda>opts image w h. []),
      detectRadioButtons = (\<lambda>opts image w h. []),
      detectSignatureAreas = (\<lambda>opts image w h. []),
      detectStandaloneLines = (\<lambda>opts image w h. [])\<rparr>"

definition whiteImage :: "nat \<Rightarrow> nat \<Rightarrow> ImageData" where
  "whiteImage w h = \<lparr>img_data = replicate (w * h * 4) 255, img_width = w, img_height = h\<rparr>"

definition leftElement :: DetectedElement where
  "leftElement =
     \<lparr>el_type = EText,
      el_rect = \<lparr>rect_x = 0, rect_y = 0, rect_width = 50, rect_height = 20\<rparr>,
      confidence = 0.8\<rparr>"

definition rightElement :: DetectedElement where
  "rightElement =
     \<lparr>el_type = EText,
      el_rect = \<lparr>rect_x = 50, rect_y = 0, rect_width = 50, rect_height = 20\<rparr>,
      confidence = 0.6\<rparr>"

text \<open>
  A small element inside a word, and two text boxes: one that covers the right fifth of
  \<^const>\<open>leftElement\<close> and the small element entirely, and one that covers two fifths of
  \<^const>\<open>leftElement\<close> and lies inside it.
\<close>

definition glyphElement :: DetectedElement where
  "glyphElement =
     \<lparr>el_type = EText,
      el_rect = \<lparr>rect_x = 45, rect_y = 5, rect_width = 10, rect_height = 10\<rparr>,
      confidence = 0.5\<rparr>"

definition labelBox :: TextBox where
  "labelBox =
     \<lparr>tb_text = ''Name'',
      tb_rect = \<lparr>rect_x = 40, rect_y = 0, rect_width = 60, rect_height = 20\<rparr>\<rparr>"

definition innerBox :: TextBox where
  "innerBox =
     \<lparr>tb_text = ''Name'',
      tb_rect = \<lparr>rect_x = 30, rect_y = 0, rect_width = 20, rect_height = 20\<rparr>\<rparr>"

text \<open>
  A unit square and a text box that starts at \<^verbatim>\<open>x = 0.3\<close> with the width \<^verbatim>\<open>0.8\<close>, so that the
  box covers the square from 0.3 on: seven tenths of it.
\<close>

definition unitElement :: DetectedElement where
  "unitElement =
     \<lparr>el_type = EText,
      el_rect = \<lparr>rect_x = 0, rect_y = 0, rect_width = 1, rect_height = 1\<rparr>,
      confidence = 0.5\<rparr>"

definition offsetBox :: TextBox where
  "offsetBox =
     \<lparr>tb_text = ''Name'',
      tb_rect = \<lparr>rect_x = fl 0.3, rect_y = 0, rect_width = fl 0.8, rect_height = 1\<rparr>\<rparr>"

section \<open>Properties of the rounding\<close>

lemma roundHalfEven_of_int [simp]: "roundHalfEven (of_int n) = n"
  by (simp add: roundHalfEven_def)

lemma roundHalfEven_range: "\<lfloor>q\<rfloor> \<le> roundHalfEven q \<and> roundHalfEven q \<le> \<lfloor>q\<rfloor> + 1"
  by (simp add: roundHalfEven_def Let_def)

lemma roundHalfEven_mono:
  assumes "a \<le> b"
  shows "roundHalfEven a \<le> roundHalfEven b"
proof (cases "\<lfloor>a\<rfloor> < \<lfloor>b\<rfloor>")
  case True
  then show ?thesis
    using roundHalfEven_range[of a] roundHalfEven_range[of b] by linarith
next
  case False
  then have eq: "\<lfloor>a\<rfloor> = \<lfloor>b\<rfloor>" using floor_mono[OF assms] by simp
  show ?thesis
    using assms by (auto simp: roundHalfEven_def Let_def eq)
qed

lemma exponentOf_bounds:
  assumes "0 < v"
  shows "2 powi (exponentOf v) \<le> v" and "v < 2 powi (exponentOf v + 1)"
proof -
  have "2 powi (exponentOf v) \<le> v \<and> v < 2 powi (exponentOf v + 1)"
  proof (cases "1 \<le> v")
    case True
    define n where "n = nat \<lfloor>v\<rfloor>"
    define k where "k = floorlog 2 n"
    have n: "0 < n" "real n \<le> v" "v < real n + 1"
      using True by (simp_all add: n_def le_nat_floor of_nat_nat)
    have b: "2 ^ (k - 1) \<le> n" "n < 2 ^ k"
      using floorlog_bounds[of n 2] n(1) by (simp_all add: k_def)
    have kpos: "0 < k" using b(2) n(1) by (cases k) auto
    have e: "exponentOf v = int k - 1"
      using True by (simp add: exponentOf_def n_def k_def)
    have p1: "(2::real) powi (int k - 1) = 2 ^ (k - 1)"
      using kpos by (simp add: power_int_def nat_diff_distrib')
    have p2: "(2::real) powi (int k - 1 + 1) = 2 ^ k"
      by (simp add: power_int_def)
    have "real (2 ^ (k - 1)) \<le> real n" using b(1) by (simp only: of_nat_le_iff)
    then have r1: "(2::real) ^ (k - 1) \<le> real n"
      by (simp only: of_nat_power of_nat_numeral)
    have "Suc n \<le> 2 ^ k" using b(2) by simp
    then have "real (Suc n) \<le> real (2 ^ k)" by (simp only: of_nat_le_iff)
    then have r2: "real n + 1 \<le> (2::real) ^ k"
      by (simp only: of_nat_power of_nat_numeral of_nat_Suc add.commute)
    show ?thesis unfolding e p1 p2 using r1 r2 n by linarith
  next
    case False
    define z where "z = 1 / v"
    define n where "n = nat \<lceil>z\<rceil> - 1"
    define k where "k = floorlog 2 n"
    have z: "1 < z" "v = 1 / z" using False assms by (simp_all add: z_def)
    have c: "2 \<le> \<lceil>z\<rceil>" using z(1) by linarith
    have n: "0 < n" "real n < z" "z \<le> real n + 1"
      using c by (simp_all add: n_def) linarith+
    have b: "2 ^ (k - 1) \<le> n" "n < 2 ^ k"
      using floorlog_bounds[of n 2] n(1) by (simp_all add: k_def)
    have kpos: "0 < k" using b(2) n(1) by (cases k) auto
    have e: "exponentOf v = - int k"
      using False by (simp add: exponentOf_def n_def k_def z_def)
    have "real (2 ^ (k - 1)) \<le> real n" using b(1) by (simp only: of_nat_le_iff)
    then have r1: "(2::real) ^ (k - 1) \<le> real n"
      by (simp only: of_nat_power of_nat_numeral)
    have "Suc n \<le> 2 ^ k" using b(2) by simp
    then have "real (Suc n) \<le> real (2 ^ k)" by (simp only: of_nat_le_iff)
    then have r2: "real n + 1 \<le> (2::real) ^ k"
      by (simp only: of_nat_power of_nat_numeral of_nat_Suc add.commute)
    have lo: "(2::real) ^ (k - 1) < z" using r1 n(2) by linarith
    have hi: "z \<le> (2::real) ^ k" using r2 n(3) by linarith
    have p1: "(2::real) powi (- int k) = 1 / 2 ^ k"
      by (simp add: power_int_def field_simps)
    have p2: "(2::real) powi (- int k + 1) = 1 / 2 ^ (k - 1)"
      using kpos by (cases k) (simp_all add: power_int_def field_simps nat_diff_distrib')
    have zpos: "0 < z" using z(1) by simp
    have "1 / 2 ^ k \<le> 1 / z"
      using hi zpos by (simp add: frac_le)
    moreover have "1 / z < 1 / 2 ^ (k - 1)"
      using lo by (simp add: frac_less2)
    ultimately show ?thesis unfolding e p1 p2 using z(2) by simp
  qed
  then show "2 powi (exponentOf v) \<le> v" and "v < 2 powi (exponentOf v + 1)" by simp_all
qed

lemma exponentOf_unique:
  assumes "0 < v" "2 powi e \<le> v" "v < 2 powi (e + 1)"
  shows "exponentOf v = e"
proof -
  note b = exponentOf_bounds[OF assms(1)]
  have "(2::real) powi e < 2 powi (exponentOf v + 1)" using assms(2) b(2) by linarith
  then have "e < exponentOf v + 1"
    by (metis power_int_increasing not_less one_le_numeral)
  moreover have "(2::real) powi (exponentOf v) < 2 powi (e + 1)" using assms(3) b(1) by linarith
  then have "exponentOf v < e + 1"
    by (metis power_int_increasing not_less one_le_numeral)
  ultimately show ?thesis by simp
qed


lemma pow2_pos [simp]: "0 < (2::real) powi e"
  by simp

lemma pow2_add: "(2::real) powi (a + b) = 2 powi a * 2 powi b"
  by (simp add: power_int_add)

lemma pow2_diff: "(2::real) powi (a - b) = 2 powi a / 2 powi b"
  by (simp add: power_int_diff)

lemma pow2_nat: "0 \<le> e \<Longrightarrow> (2::real) powi e = of_int (2 ^ nat e)"
  by (simp add: power_int_def)

lemma roundPositive_quotient:
  assumes "0 < v"
  shows "2 ^ 52 \<le> v / 2 powi (exponentOf v - 52)" and "v / 2 powi (exponentOf v - 52) < 2 ^ 53"
proof -
  note b = exponentOf_bounds[OF assms]
  have u: "(2::real) powi (exponentOf v - 52) = 2 powi (exponentOf v) / 2 ^ 52"
    by (simp add: pow2_diff)
  have u2: "(2::real) powi (exponentOf v + 1) = 2 powi (exponentOf v) * 2"
    by (simp add: pow2_add)
  show "2 ^ 52 \<le> v / 2 powi (exponentOf v - 52)"
    using b(1) by (simp add: u field_simps)
  show "v / 2 powi (exponentOf v - 52) < 2 ^ 53"
    using b(2) unfolding u u2 by (simp add: field_simps)
qed

lemma roundPositive_mantissa:
  assumes "0 < v"
  shows "2 ^ 52 \<le> roundHalfEven (v / 2 powi (exponentOf v - 52))"
    and "roundHalfEven (v / 2 powi (exponentOf v - 52)) \<le> 2 ^ 53"
proof -
  note q = roundPositive_quotient[OF assms]
  have "roundHalfEven (of_int (2 ^ 52)) \<le> roundHalfEven (v / 2 powi (exponentOf v - 52))"
    by (rule roundHalfEven_mono) (use q(1) in simp)
  then show "2 ^ 52 \<le> roundHalfEven (v / 2 powi (exponentOf v - 52))"
    by (simp only: roundHalfEven_of_int)
  have "roundHalfEven (v / 2 powi (exponentOf v - 52)) \<le> roundHalfEven (of_int (2 ^ 53))"
    by (rule roundHalfEven_mono) (use q(2) in simp)
  then show "roundHalfEven (v / 2 powi (exponentOf v - 52)) \<le> 2 ^ 53"
    by (simp only: roundHalfEven_of_int)
qed

lemma roundPositive_bounds:
  assumes "0 < v"
  shows "2 powi (exponentOf v) \<le> roundPositive v"
    and "roundPositive v \<le> 2 powi (exponentOf v + 1)"
proof -
  define u :: real where "u = 2 powi (exponentOf v - 52)"
  define m where "m = roundHalfEven (v / u)"
  have upos: "0 < u" by (simp add: u_def)
  have m: "2 ^ 52 \<le> m" "m \<le> 2 ^ 53"
    using roundPositive_mantissa[OF assms] by (simp_all add: m_def u_def)
  have r: "roundPositive v = of_int m * u"
    by (simp add: roundPositive_def Let_def m_def u_def)
  have lo: "(2::real) powi (exponentOf v) = 2 ^ 52 * u"
    by (simp add: u_def pow2_diff)
  have hi: "(2::real) powi (exponentOf v + 1) = 2 ^ 53 * u"
    by (simp add: u_def pow2_diff pow2_add)
  have "(2::real) ^ 52 \<le> of_int m" using m(1) by (metis of_int_le_iff of_int_numeral of_int_power)
  then show "2 powi (exponentOf v) \<le> roundPositive v"
    unfolding r lo using upos by (simp add: mult_right_mono)
  have "of_int m \<le> (2::real) ^ 53" using m(2) by (metis of_int_le_iff of_int_numeral of_int_power)
  then show "roundPositive v \<le> 2 powi (exponentOf v + 1)"
    unfolding r hi using upos by (simp add: mult_right_mono)
qed

lemma roundPositive_pos: "0 < v \<Longrightarrow> 0 < roundPositive v"
  using roundPositive_bounds(1)[of v] pow2_pos[of "exponentOf v"] by linarith

lemma exponentOf_mono:
  assumes "0 < a" "a \<le> b"
  shows "exponentOf a \<le> exponentOf b"
proof -
  have "(2::real) powi (exponentOf a) < 2 powi (exponentOf b + 1)"
    using exponentOf_bounds(1)[OF assms(1)] exponentOf_bounds(2)[of b] assms by linarith
  then have "exponentOf a < exponentOf b + 1"
    by (metis power_int_increasing not_less one_le_numeral)
  then show ?thesis by simp
qed

lemma roundPositive_mono:
  assumes "0 < a" "a \<le> b"
  shows "roundPositive a \<le> roundPositive b"
proof (cases "exponentOf a = exponentOf b")
  case True
  have "a / 2 powi (exponentOf b - 52) \<le> b / 2 powi (exponentOf b - 52)"
    using assms(2) by (simp add: divide_right_mono)
  then have "roundHalfEven (a / 2 powi (exponentOf b - 52))
               \<le> roundHalfEven (b / 2 powi (exponentOf b - 52))"
    by (rule roundHalfEven_mono)
  then show ?thesis
    by (simp add: roundPositive_def Let_def True mult_right_mono)
next
  case False
  then have "exponentOf a + 1 \<le> exponentOf b"
    using exponentOf_mono[OF assms] by simp
  then have "(2::real) powi (exponentOf a + 1) \<le> 2 powi (exponentOf b)"
    by (intro power_int_increasing) simp_all
  moreover have "0 < b" using assms by simp
  ultimately show ?thesis
    using roundPositive_bounds(2)[OF assms(1)] roundPositive_bounds(1)[of b] by linarith
qed

lemma fl_zero [simp]: "fl 0 = 0"
  by (simp add: fl_def)

lemma fl_pos: "0 < v \<Longrightarrow> 0 < fl v"
  by (simp add: fl_def roundPositive_pos)

lemma fl_neg: "v < 0 \<Longrightarrow> fl v < 0"
  by (simp add: fl_def roundPositive_pos)

lemma fl_minus: "fl (- v) = - fl v"
  by (simp add: fl_def)

lemma fl_mono:
  assumes "a \<le> b"
  shows "fl a \<le> fl b"
proof -
  consider "0 < a" | "a = 0" | "a < 0" "b < 0" | "a < 0" "b = 0" | "a < 0" "0 < b"
    using assms by linarith
  then show ?thesis
  proof cases
    case 1
    then show ?thesis using assms by (simp add: fl_def roundPositive_mono)
  next
    case 2
    then show ?thesis using assms fl_pos[of b] by (cases "b = 0") auto
  next
    case 3
    then have "roundPositive (- b) \<le> roundPositive (- a)"
      using assms by (intro roundPositive_mono) simp_all
    then show ?thesis using 3 by (simp add: fl_def)
  next
    case 4
    then show ?thesis using fl_neg[of a] by simp
  next
    case 5
    then show ?thesis using fl_neg[of a] fl_pos[of b] by simp
  qed
qed

lemma fl_nonneg: "0 \<le> v \<Longrightarrow> 0 \<le> fl v"
  using fl_mono[of 0 v] by simp

lemma fl_nonpos: "v \<le> 0 \<Longrightarrow> fl v \<le> 0"
  using fl_mono[of v 0] by simp


lemma roundPositive_exact:
  assumes "v / 2 powi (exponentOf v - 52) = of_int m"
  shows "roundPositive v = v"
proof -
  have "roundPositive v = of_int m * 2 powi (exponentOf v - 52)"
    by (simp add: roundPositive_def Let_def assms)
  also have "\<dots> = v / 2 powi (exponentOf v - 52) * 2 powi (exponentOf v - 52)"
    by (simp only: assms)
  also have "\<dots> = v" by simp
  finally show ?thesis .
qed

lemma pow2_le_iff: "(2::real) powi a \<le> 2 powi b \<longleftrightarrow> a \<le> b"
proof
  assume "(2::real) powi a \<le> 2 powi b"
  then show "a \<le> b"
    by (metis power_int_strict_increasing not_less one_less_numeral_iff semiring_norm(76))
next
  assume "a \<le> b"
  then show "(2::real) powi a \<le> 2 powi b" by (intro power_int_increasing) simp_all
qed

lemma pow2_less_iff: "(2::real) powi a < 2 powi b \<longleftrightarrow> a < b"
  using pow2_le_iff[of b a] by (simp add: not_le[symmetric])

lemma roundPositive_dyadic:
  assumes "0 < m" "m \<le> 2 ^ 53"
  shows "roundPositive (of_int m * 2 powi k) = of_int m * 2 powi k"
proof -
  define v :: real where "v = of_int m * 2 powi k"
  define e where "e = exponentOf v"
  have vpos: "0 < v" using assms(1) by (simp add: v_def)
  note b = exponentOf_bounds[OF vpos, folded e_def]
  have mr: "(of_int m :: real) \<le> 2 ^ 53"
    using assms(2) by (metis of_int_le_iff of_int_numeral of_int_power)
  have "v \<le> 2 ^ 53 * 2 powi k"
    unfolding v_def using mr by (simp add: mult_right_mono)
  also have "\<dots> = 2 powi (53 + k)" by (simp add: pow2_add)
  finally have "(2::real) powi e \<le> 2 powi (53 + k)" using b(1) by linarith
  then have ek: "e \<le> 53 + k" by (simp only: pow2_le_iff)
  have "\<exists>j. v / 2 powi (e - 52) = of_int j"
  proof (cases "e = 53 + k")
    case True
    have "2 ^ 53 * 2 powi k \<le> of_int m * (2::real) powi k"
      using b(1) by (simp add: True pow2_add v_def)
    then have "(2::real) ^ 53 \<le> of_int m" by simp
    with mr have m53: "(of_int m :: real) = 2 ^ 53" by linarith
    have "v / 2 powi (e - 52) = 2 ^ 53 * 2 powi k / 2 powi (1 + k)"
      by (simp add: v_def m53 True)
    also have "\<dots> = 2 ^ 52" by (simp add: pow2_add)
    also have "\<dots> = of_int (2 ^ 52)" by simp
    finally show ?thesis by blast
  next
    case False
    then have j: "0 \<le> k - e + 52" using ek by simp
    have "v / 2 powi (e - 52) = of_int m * (2 powi k / 2 powi (e - 52))"
      by (simp add: v_def)
    also have "2 powi k / 2 powi (e - 52) = (2::real) powi (k - e + 52)"
      by (simp add: pow2_diff[symmetric] algebra_simps)
    also have "\<dots> = of_int (2 ^ nat (k - e + 52))" by (rule pow2_nat[OF j])
    finally have "v / 2 powi (e - 52) = of_int (m * 2 ^ nat (k - e + 52))" by simp
    then show ?thesis by blast
  qed
  then obtain j where "v / 2 powi (exponentOf v - 52) = of_int j" by (auto simp: e_def)
  then have "roundPositive v = v" by (rule roundPositive_exact)
  then show ?thesis by (simp add: v_def)
qed

lemma fl_dyadic:
  assumes "\<bar>m\<bar> \<le> 2 ^ 53"
  shows "fl (of_int m * 2 powi k) = of_int m * 2 powi k"
proof -
  consider "m = 0" | "0 < m" | "m < 0" by linarith
  then show ?thesis
  proof cases
    case 1
    then show ?thesis by simp
  next
    case 2
    then have "0 < (of_int m :: real) * 2 powi k" by simp
    then show ?thesis using 2 assms by (simp add: fl_def roundPositive_dyadic)
  next
    case 3
    then have neg: "(of_int m :: real) * 2 powi k < 0" by (simp add: mult_neg_pos)
    have "roundPositive (of_int (- m) * 2 powi k) = of_int (- m) * 2 powi k"
      using 3 assms by (intro roundPositive_dyadic) simp_all
    then show ?thesis using neg by (simp add: fl_def)
  qed
qed

lemma fl_of_int: "\<bar>n\<bar> \<le> 2 ^ 53 \<Longrightarrow> fl (of_int n) = of_int n"
  using fl_dyadic[of n 0] by simp

lemma fl_one [simp]: "fl 1 = 1"
  using fl_of_int[of 1] by simp

lemma fl_numeral: "numeral k \<le> (9007199254740992::int) \<Longrightarrow> fl (numeral k) = numeral k"
  using fl_of_int[of "numeral k"] by simp

lemma fl_idem [simp]: "fl (fl v) = fl v"
proof -
  have pos: "fl (roundPositive w) = roundPositive w" if "0 < w" for w
  proof -
    have "\<bar>roundHalfEven (w / 2 powi (exponentOf w - 52))\<bar> \<le> 2 ^ 53"
      using roundPositive_mantissa[OF that] by simp
    then show ?thesis
      unfolding roundPositive_def Let_def by (rule fl_dyadic)
  qed
  consider "v = 0" | "0 < v" | "v < 0" by linarith
  then show ?thesis
  proof cases
    case 1
    then show ?thesis by simp
  next
    case 2
    then show ?thesis by (simp add: fl_def[of v] pos)
  next
    case 3
    then show ?thesis by (simp add: fl_def[of v] fl_minus pos)
  qed
qed

lemma isDouble_fl [simp]: "isDouble (fl v)"
  by (simp add: isDouble_def)

lemma exponentOf_scale:
  assumes "0 < v"
  shows "exponentOf (v * 2 powi k) = exponentOf v + k"
proof (rule exponentOf_unique)
  note b = exponentOf_bounds[OF assms]
  show "0 < v * 2 powi k" using assms by simp
  show "2 powi (exponentOf v + k) \<le> v * 2 powi k"
    using b(1) by (simp add: pow2_add mult_right_mono)
  have "v * 2 powi k < 2 powi (exponentOf v + 1) * 2 powi k"
    using b(2) by (simp add: mult_strict_right_mono)
  then show "v * 2 powi k < 2 powi (exponentOf v + k + 1)"
    by (simp add: pow2_add mult_ac)
qed

lemma roundPositive_scale:
  assumes "0 < v"
  shows "roundPositive (v * 2 powi k) = roundPositive v * 2 powi k"
proof -
  have "v * 2 powi k / 2 powi (exponentOf v + k - 52) = v / 2 powi (exponentOf v - 52)"
    by (simp add: pow2_add pow2_diff)
  moreover have "(2::real) powi (exponentOf v + k - 52) = 2 powi (exponentOf v - 52) * 2 powi k"
    by (simp add: pow2_add pow2_diff)
  ultimately show ?thesis
    by (simp add: roundPositive_def Let_def exponentOf_scale[OF assms])
qed

lemma fl_scale: "fl (v * 2 powi k) = fl v * 2 powi k"
proof -
  consider "v = 0" | "0 < v" | "v < 0" by linarith
  then show ?thesis
  proof cases
    case 1
    then show ?thesis by simp
  next
    case 2
    then show ?thesis by (simp add: fl_def roundPositive_scale)
  next
    case 3
    then have "v * 2 powi k < 0" by (simp add: mult_neg_pos)
    moreover have "roundPositive (- v * 2 powi k) = roundPositive (- v) * 2 powi k"
      using 3 by (intro roundPositive_scale) simp
    ultimately show ?thesis using 3 by (simp add: fl_def)
  qed
qed

lemma fl_times_2: "fl (2 * v) = 2 * fl v"
  using fl_scale[of v 1] by (simp add: mult.commute)

lemma fl_times_4: "fl (v * 4) = fl v * 4"
  using fl_scale[of v 2] by simp

lemma fl_eval:
  assumes "0 < v" "2 powi e \<le> v" "v < 2 powi (e + 1)"
    and "roundHalfEven (v / 2 powi (e - 52)) = m"
  shows "fl v = of_int m * 2 powi (e - 52)"
  using assms exponentOf_unique[OF assms(1,2,3)]
  by (simp add: fl_def roundPositive_def Let_def)

lemma fl_min: "fl (min a b) = min (fl a) (fl b)"
  by (cases "a \<le> b") (simp_all add: min_def fl_mono antisym)

lemma fl_max: "fl (max a b) = max (fl a) (fl b)"
  by (cases "a \<le> b") (simp_all add: max_def fl_mono antisym)

lemma isDouble_zero [simp]: "isDouble 0"
  by (simp add: isDouble_def)

lemma isDouble_one [simp]: "isDouble 1"
  by (simp add: isDouble_def)

lemma isDouble_max: "isDouble a \<Longrightarrow> isDouble b \<Longrightarrow> isDouble (max a b)"
  by (simp add: max_def)

lemma isDouble_of_int: "\<bar>n\<bar> \<le> 2 ^ 53 \<Longrightarrow> isDouble (of_int n)"
  by (simp add: isDouble_def fl_of_int)

lemma isDouble_numeral: "numeral k \<le> (9007199254740992::int) \<Longrightarrow> isDouble (numeral k)"
  by (simp add: isDouble_def fl_numeral)

lemma fl_of_int_integral: "\<exists>m. fl (of_int n) = of_int m"
proof -
  have pos: "\<exists>m. roundPositive (of_int k) = of_int m" if "0 < k" for k :: int
  proof (cases "k \<le> 2 ^ 53")
    case True
    then have "fl (of_int k) = of_int k" using that by (intro fl_of_int) simp
    then show ?thesis using that by (auto simp: fl_def)
  next
    case False
    define e where "e = exponentOf (of_int k)"
    have "(of_int k :: real) < 2 powi (e + 1)"
      using exponentOf_bounds[of "of_int k"] that by (simp add: e_def)
    moreover have "(2::real) powi 53 < of_int k"
    proof -
      have "(2::int) ^ 53 < k" using False by simp
      then have "(of_int ((2::int) ^ 53) :: real) < of_int k" by (simp only: of_int_less_iff)
      then show ?thesis by simp
    qed
    ultimately have "(2::real) powi 53 < 2 powi (e + 1)" by linarith
    then have "53 < e + 1" by (simp only: pow2_less_iff)
    then have "52 \<le> e" by simp
    then have "(2::real) powi (e - 52) = of_int (2 ^ nat (e - 52))"
      by (intro pow2_nat) simp
    then have "roundPositive (of_int k)
        = of_int (roundHalfEven (of_int k / 2 powi (e - 52)) * 2 ^ nat (e - 52))"
      by (simp add: roundPositive_def Let_def e_def)
    then show ?thesis by blast
  qed
  consider "n = 0" | "0 < n" | "n < 0" by linarith
  then show ?thesis
  proof cases
    case 1
    then show ?thesis by simp
  next
    case 2
    then show ?thesis using pos[of n] by (simp add: fl_def)
  next
    case 3
    then obtain m where "roundPositive (of_int (- n)) = of_int m"
      using pos[of "- n"] by auto
    then have "fl (of_int n) = of_int (- m)"
      using 3 by (simp add: fl_def)
    then show ?thesis by blast
  qed
qed

section \<open>Properties of the geometry\<close>

lemma selfIoU_step_1: "fl (1 / 10) = 3602879701896397 / 36028797018963968"
proof -
  have "fl (1 / 10) = of_int 7205759403792794 * 2 powi (- 4 - 52)"
    by (rule fl_eval) (simp_all add: roundHalfEven_def Let_def)
  then show ?thesis by simp
qed

lemma selfIoU_step_2: "fl (3602879701896397 / 18014398509481984) = 3602879701896397 / 18014398509481984"
proof -
  have "fl (3602879701896397 / 18014398509481984) = of_int 7205759403792794 * 2 powi (- 3 - 52)"
    by (rule fl_eval) (simp_all add: roundHalfEven_def Let_def)
  then show ?thesis by simp
qed

lemma selfIoU_step_3: "fl (12610078956637389 / 36028797018963968) = 3152519739159347 / 9007199254740992"
proof -
  have "fl (12610078956637389 / 36028797018963968) = of_int 6305039478318694 * 2 powi (- 2 - 52)"
    by (rule fl_eval) (simp_all add: roundHalfEven_def Let_def)
  then show ?thesis by simp
qed

lemma selfIoU_step_4: "fl (3602879701896397 / 36028797018963968) = 3602879701896397 / 36028797018963968"
proof -
  have "fl (3602879701896397 / 36028797018963968) = of_int 7205759403792794 * 2 powi (- 4 - 52)"
    by (rule fl_eval) (simp_all add: roundHalfEven_def Let_def)
  then show ?thesis by simp
qed

lemma selfIoU_step_5: "fl (9007199254740991 / 36028797018963968) = 9007199254740991 / 36028797018963968"
proof -
  have "fl (9007199254740991 / 36028797018963968) = of_int 9007199254740991 * 2 powi (- 3 - 52)"
    by (rule fl_eval) (simp_all add: roundHalfEven_def Let_def)
  then show ?thesis by simp
qed

lemma selfIoU_step_6: "fl (32451855365842670876875751109427 / 1298074214633706907132624082305024) = 7205759403792793 / 288230376151711744"
proof -
  have "fl (32451855365842670876875751109427 / 1298074214633706907132624082305024) = of_int 7205759403792793 * 2 powi (- 6 - 52)"
    by (rule fl_eval) (simp_all add: roundHalfEven_def Let_def)
  then show ?thesis by simp
qed

lemma selfIoU_step_7: "fl (3602879701896397 / 144115188075855872) = 3602879701896397 / 144115188075855872"
proof -
  have "fl (3602879701896397 / 144115188075855872) = of_int 7205759403792794 * 2 powi (- 6 - 52)"
    by (rule fl_eval) (simp_all add: roundHalfEven_def Let_def)
  then show ?thesis by simp
qed

lemma selfIoU_step_8: "fl (3602879701896397 / 72057594037927936) = 3602879701896397 / 72057594037927936"
proof -
  have "fl (3602879701896397 / 72057594037927936) = of_int 7205759403792794 * 2 powi (- 5 - 52)"
    by (rule fl_eval) (simp_all add: roundHalfEven_def Let_def)
  then show ?thesis by simp
qed

lemma selfIoU_step_9: "fl (7205759403792795 / 288230376151711744) = 7205759403792795 / 288230376151711744"
proof -
  have "fl (7205759403792795 / 288230376151711744) = of_int 7205759403792795 * 2 powi (- 6 - 52)"
    by (rule fl_eval) (simp_all add: roundHalfEven_def Let_def)
  then show ?thesis by simp
qed

lemma selfIoU_step_10: "fl (7205759403792793 / 7205759403792795) = 4503599627370495 / 4503599627370496"
proof -
  have "fl (7205759403792793 / 7205759403792795) = of_int 9007199254740990 * 2 powi (- 1 - 52)"
    by (rule fl_eval) (simp_all add: roundHalfEven_def Let_def)
  then show ?thesis by simp
qed

lemma selfIoU_step_11: "fl (9007199254740993) = 9007199254740992"
proof -
  have "fl (9007199254740993) = of_int 4503599627370496 * 2 powi (53 - 52)"
    by (rule fl_eval) (simp_all add: roundHalfEven_def Let_def)
  then show ?thesis by simp
qed

lemma selfIoU_step_12: "fl (1) = 1"
proof -
  have "fl (1) = of_int 4503599627370496 * 2 powi (0 - 52)"
    by (rule fl_eval) (simp_all add: roundHalfEven_def Let_def)
  then show ?thesis by simp
qed

lemmas selfIoU_steps =
  selfIoU_step_1 selfIoU_step_2 selfIoU_step_3 selfIoU_step_4 selfIoU_step_5 selfIoU_step_6 selfIoU_step_7 selfIoU_step_8 selfIoU_step_9 selfIoU_step_10 selfIoU_step_11 selfIoU_step_12

lemma tenthRect_selfIoU: "computeIoU_double tenthRect tenthRect = 4503599627370495 / 4503599627370496"
  by (simp add: computeIoU_double_def tenthRect_def Let_def selfIoU_steps)

lemma farRect_selfIoU: "computeIoU_double farRect farRect = 0"
  by (simp add: computeIoU_double_def farRect_def Let_def selfIoU_steps)

lemma computeIoU_double_sym: "computeIoU_double a b = computeIoU_double b a"
  by (simp add: computeIoU_double_def Let_def min.commute max.commute add.commute)

lemma separated_edges_double:
  assumes "isDouble xa" "isDouble xb" "min (xa + wa) (xb + wb) \<le> max xa xb"
  shows "min (fl (xa + wa)) (fl (xb + wb)) \<le> max xa xb"
proof -
  have "fl (min (xa + wa) (xb + wb)) \<le> fl (max xa xb)"
    using assms(3) by (rule fl_mono)
  moreover have "fl (max xa xb) = max xa xb"
    using assms(1,2) by (simp add: fl_max isDouble_def)
  ultimately show ?thesis by (simp add: fl_min)
qed

lemma computeIoU_double_separated:
  assumes "doubleRect a" "doubleRect b"
    and "min (rect_x a + rect_width a) (rect_x b + rect_width b) \<le> max (rect_x a) (rect_x b)
         \<or> min (rect_y a + rect_height a) (rect_y b + rect_height b) \<le> max (rect_y a) (rect_y b)"
  shows "computeIoU_double a b = 0"
proof -
  have "min (fl (rect_x a + rect_width a)) (fl (rect_x b + rect_width b)) \<le> max (rect_x a) (rect_x b)
         \<or> min (fl (rect_y a + rect_height a)) (fl (rect_y b + rect_height b)) \<le> max (rect_y a) (rect_y b)"
    using assms separated_edges_double[of "rect_x a" "rect_x b" "rect_width a" "rect_width b"]
      separated_edges_double[of "rect_y a" "rect_y b" "rect_height a" "rect_height b"]
    by (auto simp: doubleRect_def)
  then show ?thesis
    by (simp add: computeIoU_double_def Let_def)
qed

lemma disjointRects_edges:
  assumes "disjointRects a b"
  shows "min (rect_x a + rect_width a) (rect_x b + rect_width b) \<le> max (rect_x a) (rect_x b)
         \<or> min (rect_y a + rect_height a) (rect_y b + rect_height b) \<le> max (rect_y a) (rect_y b)"
  using assms by (auto simp: disjointRects_def min_def max_def)

lemma interiors_disjoint_edges:
  assumes "rectInterior a \<inter> rectInterior b = {}"
  shows "min (rect_x a + rect_width a) (rect_x b + rect_width b) \<le> max (rect_x a) (rect_x b)
         \<or> min (rect_y a + rect_height a) (rect_y b + rect_height b) \<le> max (rect_y a) (rect_y b)"
proof -
  define left where "left = max (rect_x a) (rect_x b)"
  define top where "top = max (rect_y a) (rect_y b)"
  define right where "right = min (rect_x a + rect_width a) (rect_x b + rect_width b)"
  define bottom where "bottom = min (rect_y a + rect_height a) (rect_y b + rect_height b)"
  have "right \<le> left \<or> bottom \<le> top"
  proof (rule ccontr)
    assume "\<not> (right \<le> left \<or> bottom \<le> top)"
    then have lr: "left < right" and tb: "top < bottom" by auto
    define mx where "mx = (left + right) / 2"
    define my where "my = (top + bottom) / 2"
    have "left < mx" "mx < right" "top < my" "my < bottom"
      using lr tb by (simp_all add: mx_def my_def)
    then have "(mx, my) \<in> rectInterior a \<inter> rectInterior b"
      by (simp add: rectInterior_def left_def right_def top_def bottom_def)
    with assms show False by simp
  qed
  then show ?thesis
    by (simp add: left_def right_def top_def bottom_def)
qed

lemma computeIoU_double_self:
  assumes "0 < rect_width a" "0 < rect_height a" "edgesRecovered a"
  shows "computeIoU_double a a = 1"
proof -
  define A where "A = fl (rect_width a * rect_height a)"
  have A: "0 < A" "fl A = A"
    using assms(1,2) by (simp_all add: A_def fl_pos)
  have w: "fl (fl (rect_x a + rect_width a) - rect_x a) = rect_width a"
    and h: "fl (fl (rect_y a + rect_height a) - rect_y a) = rect_height a"
    using assms(3) by (simp_all add: edgesRecovered_def)
  have "\<not> fl (rect_x a + rect_width a) \<le> rect_x a"
  proof
    assume "fl (rect_x a + rect_width a) \<le> rect_x a"
    then have "fl (fl (rect_x a + rect_width a) - rect_x a) \<le> 0"
      by (intro fl_nonpos) simp
    with w assms(1) show False by simp
  qed
  moreover have "\<not> fl (rect_y a + rect_height a) \<le> rect_y a"
  proof
    assume "fl (rect_y a + rect_height a) \<le> rect_y a"
    then have "fl (fl (rect_y a + rect_height a) - rect_y a) \<le> 0"
      by (intro fl_nonpos) simp
    with h assms(2) show False by simp
  qed
  moreover have "fl (fl (A + A) - A) = A"
  proof -
    have "fl (A + A) = 2 * A"
      using fl_times_2[of A] A(2) by simp
    then show ?thesis using A(2) by simp
  qed
  ultimately show ?thesis
    using A(1) by (simp add: computeIoU_double_def Let_def w h A_def[symmetric])
qed


lemma fixture_rects_double:
  "doubleRect (el_rect leftElement)" "doubleRect (el_rect rightElement)"
  by (simp_all add: doubleRect_def leftElement_def rightElement_def isDouble_numeral)

lemma fixture_rect_range:
  "withinRange (rect_width (el_rect leftElement) * rect_height (el_rect leftElement))"
  "\<bar>rect_x (el_rect leftElement) + rect_width (el_rect leftElement)\<bar> \<le> 2 powi 1023"
  "\<bar>rect_y (el_rect leftElement) + rect_height (el_rect leftElement)\<bar> \<le> 2 powi 1023"
proof -
  have "(2::real) powi (- 1022) \<le> 2 powi 0" "(2::real) powi 10 \<le> 2 powi 1022"
    "(2::real) powi 10 \<le> 2 powi 1023"
    by (simp_all only: pow2_le_iff)
  then have "(2::real) powi (- 1022) \<le> 1" "(1024::real) \<le> 2 powi 1022" "(1024::real) \<le> 2 powi 1023"
    by simp_all
  then show "withinRange (rect_width (el_rect leftElement) * rect_height (el_rect leftElement))"
    "\<bar>rect_x (el_rect leftElement) + rect_width (el_rect leftElement)\<bar> \<le> 2 powi 1023"
    "\<bar>rect_y (el_rect leftElement) + rect_height (el_rect leftElement)\<bar> \<le> 2 powi 1023"
    by (simp_all add: withinRange_def leftElement_def)
qed

lemma fixture_rects_disjoint:
  "disjointRects (el_rect leftElement) (el_rect rightElement)"
  "rectInterior (el_rect leftElement) \<inter> rectInterior (el_rect rightElement) = {}"
  by (auto simp: disjointRects_def rectInterior_def leftElement_def rightElement_def)

lemma isDouble_quarter: "isDouble (1 / 4)"
  using fl_dyadic[of 1 "- 2"] by (simp add: isDouble_def)

lemma edgesRecovered_origin:
  assumes "doubleRect a" "rect_x a = 0" "rect_y a = 0"
  shows "edgesRecovered a"
  using assms by (simp add: edgesRecovered_def doubleRect_def isDouble_def)

lemma edge_recovered_integers:
  assumes "\<bar>xi + wi\<bar> \<le> 2 ^ 53" "\<bar>wi\<bar> \<le> 2 ^ 53"
  shows "fl (fl (of_int xi + of_int wi) - of_int xi) = of_int wi"
proof -
  have "fl (of_int (xi + wi)) = of_int (xi + wi)"
    using assms(1) by (rule fl_of_int)
  then have "fl (of_int xi + of_int wi) - of_int xi = of_int wi"
    by simp
  then show ?thesis
    using fl_of_int[OF assms(2)] by simp
qed

lemma edgesRecovered_integers:
  assumes "rect_x a = of_int xi" "rect_width a = of_int wi"
    and "rect_y a = of_int yi" "rect_height a = of_int hi"
    and "\<bar>xi + wi\<bar> \<le> 2 ^ 53" "\<bar>wi\<bar> \<le> 2 ^ 53" "\<bar>yi + hi\<bar> \<le> 2 ^ 53" "\<bar>hi\<bar> \<le> 2 ^ 53"
  shows "edgesRecovered a"
  using assms by (simp add: edgesRecovered_def edge_recovered_integers)

text \<open>
  Claim C3, as amended. In the double arithmetic of \<^verbatim>\<open>computeIoU\<close>: the IoU of a rectangle
  with itself is 1 when its width and height are positive and are recovered from its
  rounded edges (\<^const>\<open>edgesRecovered\<close>), its area is in the range of the normal doubles and
  its edges do not overflow; the width and height are recovered for every rectangle of
  doubles at the origin and for every rectangle whose four fields are integers with
  \<open>x + width\<close>, \<open>width\<close>, \<open>y + height\<close> and \<open>height\<close> of magnitude at most \<open>2 ^ 53\<close>; the IoU
  of two rectangles of doubles is 0 when they are disjoint (one entirely to one side of
  the other, or, more generally, no point in the interior of both); and the IoU is
  symmetric.
\<close>

theorem computeIoU_properties:
  "(0 < rect_width a \<and> 0 < rect_height a \<and> edgesRecovered a
      \<and> withinRange (rect_width a * rect_height a)
      \<and> \<bar>rect_x a + rect_width a\<bar> \<le> 2 powi 1023 \<and> \<bar>rect_y a + rect_height a\<bar> \<le> 2 powi 1023
     \<longrightarrow> computeIoU_double a a = 1)
   \<and> (doubleRect a \<and> rect_x a = 0 \<and> rect_y a = 0 \<longrightarrow> edgesRecovered a)
   \<and> (rect_x a = of_int xi \<and> rect_width a = of_int wi
        \<and> rect_y a = of_int yi \<and> rect_height a = of_int hi
        \<and> \<bar>xi + wi\<bar> \<le> 2 ^ 53 \<and> \<bar>wi\<bar> \<le> 2 ^ 53 \<and> \<bar>yi + hi\<bar> \<le> 2 ^ 53 \<and> \<bar>hi\<bar> \<le> 2 ^ 53
       \<longrightarrow> edgesRecovered a)
   \<and> (doubleRect a \<and> doubleRect b \<and> disjointRects a b \<longrightarrow> computeIoU_double a b = 0)
   \<and> (doubleRect a \<and> doubleRect b \<and> rectInterior a \<inter> rectInterior b = {}
        \<longrightarrow> computeIoU_double a b = 0)
   \<and> computeIoU_double a b = computeIoU_double b a"
  using computeIoU_double_self[of a]
    edgesRecovered_origin[of a]
    edgesRecovered_integers[of a xi wi yi hi]
    computeIoU_double_separated[OF _ _ disjointRects_edges, of a b]
    computeIoU_double_separated[OF _ _ interiors_disjoint_edges, of a b]
    computeIoU_double_sym[of a b]
  by blast

text \<open>
  Two text elements of 50 by 20 pixels side by side, the first at the origin: the first
  has the IoU 1 with itself, and the IoU of the two is 0.
\<close>

theorem computeIoU_properties_witness:
  "0 < rect_width (el_rect leftElement) \<and> 0 < rect_height (el_rect leftElement)
   \<and> doubleRect (el_rect leftElement) \<and> doubleRect (el_rect rightElement)
   \<and> rect_x (el_rect leftElement) = 0 \<and> rect_y (el_rect leftElement) = 0
   \<and> rect_x (el_rect leftElement) = of_int 0 \<and> rect_width (el_rect leftElement) = of_int 50
   \<and> rect_y (el_rect leftElement) = of_int 0 \<and> rect_height (el_rect leftElement) = of_int 20
   \<and> \<bar>0 + 50\<bar> \<le> (2::int) ^ 53 \<and> \<bar>50\<bar> \<le> (2::int) ^ 53
   \<and> \<bar>0 + 20\<bar> \<le> (2::int) ^ 53 \<and> \<bar>20\<bar> \<le> (2::int) ^ 53
   \<and> edgesRecovered (el_rect leftElement)
   \<and> withinRange (rect_width (el_rect leftElement) * rect_height (el_rect leftElement))
   \<and> \<bar>rect_x (el_rect leftElement) + rect_width (el_rect leftElement)\<bar> \<le> 2 powi 1023
   \<and> \<bar>rect_y (el_rect leftElement) + rect_height (el_rect leftElement)\<bar> \<le> 2 powi 1023
   \<and> computeIoU_double (el_rect leftElement) (el_rect leftElement) = 1
   \<and> disjointRects (el_rect leftElement) (el_rect rightElement)
   \<and> rectInterior (el_rect leftElement) \<inter> rectInterior (el_rect rightElement) = {}
   \<and> computeIoU_double (el_rect leftElement) (el_rect rightElement) = 0
   \<and> computeIoU_double (el_rect leftElement) (el_rect rightElement)
       = computeIoU_double (el_rect rightElement) (el_rect leftElement)"
proof -
  note t = computeIoU_properties[of "el_rect leftElement" 0 50 0 20 "el_rect rightElement"]
  have pos: "0 < rect_width (el_rect leftElement)" "0 < rect_height (el_rect leftElement)"
    and fields: "rect_x (el_rect leftElement) = 0" "rect_y (el_rect leftElement) = 0"
      "rect_x (el_rect leftElement) = of_int 0" "rect_width (el_rect leftElement) = of_int 50"
      "rect_y (el_rect leftElement) = of_int 0" "rect_height (el_rect leftElement) = of_int 20"
    by (simp_all add: leftElement_def)
  have bounds: "\<bar>0 + 50\<bar> \<le> (2::int) ^ 53" "\<bar>50\<bar> \<le> (2::int) ^ 53"
    "\<bar>0 + 20\<bar> \<le> (2::int) ^ 53" "\<bar>20\<bar> \<le> (2::int) ^ 53"
    by simp_all
  have rec: "edgesRecovered (el_rect leftElement)"
    using t fixture_rects_double(1) fields(1,2) by blast
  have self: "computeIoU_double (el_rect leftElement) (el_rect leftElement) = 1"
    using t pos rec fixture_rect_range by blast
  have zero: "computeIoU_double (el_rect leftElement) (el_rect rightElement) = 0"
    using t fixture_rects_double fixture_rects_disjoint(1) by blast
  have sym: "computeIoU_double (el_rect leftElement) (el_rect rightElement)
       = computeIoU_double (el_rect rightElement) (el_rect leftElement)"
    using t by blast
  show ?thesis
    using pos fields bounds rec self zero sym fixture_rect_range fixture_rects_double
      fixture_rects_disjoint
    by blast
qed

text \<open>
  The claim as stated fails in double arithmetic. For the rectangle
  \<^verbatim>\<open>{x: 0.1, y: 0.1, width: 0.1, height: 0.25}\<close> the height of the intersection with
  itself, \<open>(0.1 + 0.25) - 0.1\<close>, is rounded to a double below 0.25, and the IoU is
  \<open>1 - 2 powi (- 52)\<close>, printed as 0.9999999999999998. For the unit square at \<open>x = 2 ^ 53\<close> the
  right edge \<open>2 ^ 53 + 1\<close> is rounded to \<open>2 ^ 53\<close>, the left edge, and the IoU is 0.
\<close>

theorem computeIoU_properties_counterexample:
  "doubleRect tenthRect
   \<and> 0 < rect_width tenthRect \<and> 0 < rect_height tenthRect
   \<and> computeIoU_double tenthRect tenthRect = 4503599627370495 / 4503599627370496
   \<and> computeIoU_double tenthRect tenthRect \<noteq> 1
   \<and> doubleRect farRect
   \<and> 0 < rect_width farRect \<and> 0 < rect_height farRect
   \<and> computeIoU_double farRect farRect = 0"
proof -
  have "doubleRect tenthRect" "doubleRect farRect"
    using isDouble_quarter by (simp_all add: doubleRect_def tenthRect_def farRect_def isDouble_numeral)
  moreover have "0 < rect_width tenthRect" "0 < rect_height tenthRect"
    "0 < rect_width farRect" "0 < rect_height farRect"
    by (simp_all add: tenthRect_def farRect_def fl_pos)
  ultimately show ?thesis
    by (simp add: tenthRect_selfIoU farRect_selfIoU)
qed

section \<open>Properties of the matcher\<close>

lemma acceptCandidates_eq:
  "acceptCandidates ty T P cs mt mp ms =
     (mt \<union> truthIndex ` set (acceptedCandidates cs mt mp),
      mp \<union> predictionIndex ` set (acceptedCandidates cs mt mp),
      ms @ map (makeMatch ty T P) (acceptedCandidates cs mt mp))"
  by (induction cs arbitrary: mt mp ms) auto

lemma acceptedCandidates_subset: "set (acceptedCandidates cs mt mp) \<subseteq> set cs"
  by (induction cs arbitrary: mt mp) auto

lemma acceptedCandidates_fresh_truth:
  "c \<in> set (acceptedCandidates cs mt mp) \<Longrightarrow> truthIndex c \<notin> mt"
  by (induction cs arbitrary: mt mp) (auto split: if_splits)

lemma acceptedCandidates_fresh_prediction:
  "c \<in> set (acceptedCandidates cs mt mp) \<Longrightarrow> predictionIndex c \<notin> mp"
  by (induction cs arbitrary: mt mp) (auto split: if_splits)

lemma acceptedCandidates_distinct_truth:
  "distinct (map truthIndex (acceptedCandidates cs mt mp))"
  by (induction cs arbitrary: mt mp) (auto dest: acceptedCandidates_fresh_truth)

lemma acceptedCandidates_distinct_prediction:
  "distinct (map predictionIndex (acceptedCandidates cs mt mp))"
  by (induction cs arbitrary: mt mp) (auto dest: acceptedCandidates_fresh_prediction)

lemma collectCandidates_bounds:
  "c \<in> set (collectCandidates T P th) \<Longrightarrow> truthIndex c < length T \<and> predictionIndex c < length P"
  by (auto simp: collectCandidates_def Let_def in_set_enumerate_eq split: if_splits)

lemma set_sortCandidates: "set (sortCandidates cs) = set cs"
  by (simp add: sortCandidates_def)

lemma length_unmatched:
  "length (unmatched M xs) = card ({..<length xs} - M)"
proof -
  have "length (unmatched M xs) = length (filter (\<lambda>i. i \<notin> M) [0..<length xs])"
  proof -
    have "filter (\<lambda>(index, _). index \<notin> M) (enumerate 0 xs)
            = filter ((\<lambda>i. i \<notin> M) \<circ> fst) (zip [0..<length xs] xs)"
      by (simp add: enumerate_eq_zip case_prod_unfold comp_def)
    moreover have "filter (\<lambda>i. i \<notin> M) (map fst (zip [0..<length xs] xs))
            = map fst (filter ((\<lambda>i. i \<notin> M) \<circ> fst) (zip [0..<length xs] xs))"
      by (rule filter_map)
    moreover have "map fst (zip [0..<length xs] xs) = [0..<length xs]"
      by simp
    ultimately show ?thesis
      by (metis length_map unmatched_def)
  qed
  also have "\<dots> = card (set (filter (\<lambda>i. i \<notin> M) [0..<length xs]))"
    by (rule distinct_card[symmetric]) simp
  also have "set (filter (\<lambda>i. i \<notin> M) [0..<length xs]) = {..<length xs} - M"
    by auto
  finally show ?thesis .
qed

lemma length_unmatched_image:
  assumes "distinct (map f A)" "\<forall>c\<in>set A. f c < length xs"
  shows "length A + length (unmatched (f ` set A) xs) = length xs"
proof -
  have sub: "f ` set A \<subseteq> {..<length xs}" using assms(2) by auto
  have "card (f ` set A) = length A"
    using assms(1) by (metis distinct_card length_map set_map)
  moreover have "card ({..<length xs} - f ` set A) = card {..<length xs} - card (f ` set A)"
    using sub by (simp add: card_Diff_subset finite_subset[OF sub])
  moreover have "card (f ` set A) \<le> length xs"
    using sub card_mono[of "{..<length xs}" "f ` set A"] by simp
  ultimately show ?thesis by (simp add: length_unmatched)
qed

lemma greedyMatch_facts:
  "matches (greedyMatch ty truths predictions th)
     = map (makeMatch ty truths predictions) (acceptedPairs truths predictions th)
   \<and> distinct (map truthIndex (acceptedPairs truths predictions th))
   \<and> distinct (map predictionIndex (acceptedPairs truths predictions th))
   \<and> length (matches (greedyMatch ty truths predictions th))
       + length (falseNegatives (greedyMatch ty truths predictions th)) = length truths
   \<and> length (matches (greedyMatch ty truths predictions th))
       + length (falsePositives (greedyMatch ty truths predictions th)) = length predictions"
proof -
  let ?A = "acceptedPairs truths predictions th"
  have bounds: "\<forall>c\<in>set ?A. truthIndex c < length truths \<and> predictionIndex c < length predictions"
    using acceptedCandidates_subset collectCandidates_bounds
    by (fastforce simp: acceptedPairs_def set_sortCandidates)
  have dt: "distinct (map truthIndex ?A)" and dp: "distinct (map predictionIndex ?A)"
    by (simp_all add: acceptedPairs_def acceptedCandidates_distinct_truth
          acceptedCandidates_distinct_prediction)
  have m: "matches (greedyMatch ty truths predictions th) = map (makeMatch ty truths predictions) ?A"
    and fn: "falseNegatives (greedyMatch ty truths predictions th) = unmatched (truthIndex ` set ?A) truths"
    and fp: "falsePositives (greedyMatch ty truths predictions th) = unmatched (predictionIndex ` set ?A) predictions"
    by (simp_all add: greedyMatch_def acceptCandidates_eq acceptedPairs_def)
  from bounds have bt: "\<forall>c\<in>set ?A. truthIndex c < length truths"
    and bp: "\<forall>c\<in>set ?A. predictionIndex c < length predictions" by auto
  show ?thesis
    using m fn fp dt dp length_unmatched_image[OF dt bt] length_unmatched_image[OF dp bp]
    by simp
qed



lemma acceptedPairs_bounds:
  "truthIndex ` set (acceptedPairs truths predictions th) \<subseteq> {..<length truths}"
  "predictionIndex ` set (acceptedPairs truths predictions th) \<subseteq> {..<length predictions}"
  using acceptedCandidates_subset collectCandidates_bounds
  by (fastforce simp: acceptedPairs_def set_sortCandidates)+

lemma smoke_text_pairs:
  "acceptedPairs [\<lparr>pageIndex = 0, field = smokeTruthText\<rparr>]
     [\<lparr>pageIndex = 0, field = smokePredictionNear\<rparr>, \<lparr>pageIndex = 0, field = smokePredictionFar\<rparr>]
     (1 / 2)
   = [\<lparr>truthIndex = 0, predictionIndex = 0, iou = 261 / 358\<rparr>]"
  by (simp add: acceptedPairs_def collectCandidates_def sortCandidates_def computeIoU_def Let_def
        smokeTruthText_def smokePredictionNear_def smokePredictionFar_def)


lemma enumerate_nth: "enumerate 0 xs = map (\<lambda>i. (i, xs ! i)) [0..<length xs]"
proof -
  have "zip [0..<length xs] xs = map (\<lambda>i. (i, xs ! i)) [0..<length xs]"
    by (rule nth_equalityI) simp_all
  then show ?thesis
    by (simp only: enumerate_eq_zip add_0)
qed

lemma unmatched_nth:
  "unmatched M xs = map (nth xs) (filter (\<lambda>i. i \<notin> M) [0..<length xs])"
  by (simp add: unmatched_def enumerate_nth filter_map comp_def)

lemma mset_selected_unmatched:
  assumes "distinct I" "set I \<subseteq> {..<length xs}"
  shows "mset (map (nth xs) I) + mset (unmatched (set I) xs) = mset xs"
proof -
  let ?n = "[0..<length xs]"
  have "mset I = mset (filter (\<lambda>i. i \<in> set I) ?n)"
    using assms by (intro iffD1[OF set_eq_iff_mset_eq_distinct]) auto
  then have "mset (map (nth xs) I) = mset (map (nth xs) (filter (\<lambda>i. i \<in> set I) ?n))"
    by (metis mset_map)
  moreover have "mset (filter (\<lambda>i. i \<in> set I) ?n) + mset (filter (\<lambda>i. i \<notin> set I) ?n) = mset ?n"
    unfolding mset_filter by (rule multiset_partition[symmetric])
  then have "mset (map (nth xs) (filter (\<lambda>i. i \<in> set I) ?n))
        + mset (map (nth xs) (filter (\<lambda>i. i \<notin> set I) ?n))
      = mset (map (nth xs) ?n)"
    by (metis image_mset_union mset_map)
  ultimately show ?thesis
    by (simp only: unmatched_nth map_nth)
qed

lemma greedyMatch_records:
  "map match_truth (matches (greedyMatch ty truths predictions th))
     = map (\<lambda>c. truths ! truthIndex c) (acceptedPairs truths predictions th)
   \<and> map match_prediction (matches (greedyMatch ty truths predictions th))
     = map (\<lambda>c. predictions ! predictionIndex c) (acceptedPairs truths predictions th)"
  by (simp add: greedyMatch_def acceptCandidates_eq acceptedPairs_def makeMatch_def Let_def comp_def)

lemma greedyMatch_partition:
  "mset (map match_truth (matches (greedyMatch ty truths predictions th)))
     + mset (falseNegatives (greedyMatch ty truths predictions th)) = mset truths
   \<and> mset (map match_prediction (matches (greedyMatch ty truths predictions th)))
     + mset (falsePositives (greedyMatch ty truths predictions th)) = mset predictions"
proof -
  let ?A = "acceptedPairs truths predictions th"
  have fn: "falseNegatives (greedyMatch ty truths predictions th)
              = unmatched (set (map truthIndex ?A)) truths"
    and fp: "falsePositives (greedyMatch ty truths predictions th)
              = unmatched (set (map predictionIndex ?A)) predictions"
    by (simp_all add: greedyMatch_def acceptCandidates_eq acceptedPairs_def)
  have t: "mset (map (nth truths) (map truthIndex ?A))
             + mset (unmatched (set (map truthIndex ?A)) truths) = mset truths"
    using greedyMatch_facts[of ty truths predictions th]
      acceptedPairs_bounds(1)[of truths predictions th]
    by (intro mset_selected_unmatched) auto
  have p: "mset (map (nth predictions) (map predictionIndex ?A))
             + mset (unmatched (set (map predictionIndex ?A)) predictions) = mset predictions"
    using greedyMatch_facts[of ty truths predictions th]
      acceptedPairs_bounds(2)[of truths predictions th]
    by (intro mset_selected_unmatched) auto
  show ?thesis
    using t p greedyMatch_records[of ty truths predictions th]
    by (simp add: fn fp comp_def)
qed

text \<open>
  Claim C1. For every field type, truth list, prediction list and threshold: the truth and
  the prediction of the \<open>i\<close>-th match of \<^const>\<open>greedyMatch\<close> are the instances at the
  positions of the \<open>i\<close>-th accepted candidate; these positions lie inside the two lists,
  the truth positions are pairwise distinct and the prediction positions are pairwise
  distinct, so that no truth instance and no prediction instance takes part in two
  matches; every truth instance is either the truth of exactly one match or a false
  negative, every prediction instance is either the prediction of exactly one match or a
  false positive (equalities of multisets); and
  \<open>matches.length + falseNegatives.length = truths.length\<close>,
  \<open>matches.length + falsePositives.length = predictions.length\<close>.
\<close>

theorem greedyMatch_one_to_one:
  "map match_truth (matches (greedyMatch ty truths predictions th))
     = map (\<lambda>c. truths ! truthIndex c) (acceptedPairs truths predictions th)
   \<and> map match_prediction (matches (greedyMatch ty truths predictions th))
     = map (\<lambda>c. predictions ! predictionIndex c) (acceptedPairs truths predictions th)
   \<and> matches (greedyMatch ty truths predictions th)
     = map (makeMatch ty truths predictions) (acceptedPairs truths predictions th)
   \<and> truthIndex ` set (acceptedPairs truths predictions th) \<subseteq> {..<length truths}
   \<and> predictionIndex ` set (acceptedPairs truths predictions th) \<subseteq> {..<length predictions}
   \<and> distinct (map truthIndex (acceptedPairs truths predictions th))
   \<and> distinct (map predictionIndex (acceptedPairs truths predictions th))
   \<and> mset (map match_truth (matches (greedyMatch ty truths predictions th)))
       + mset (falseNegatives (greedyMatch ty truths predictions th)) = mset truths
   \<and> mset (map match_prediction (matches (greedyMatch ty truths predictions th)))
       + mset (falsePositives (greedyMatch ty truths predictions th)) = mset predictions
   \<and> length (matches (greedyMatch ty truths predictions th))
       + length (falseNegatives (greedyMatch ty truths predictions th)) = length truths
   \<and> length (matches (greedyMatch ty truths predictions th))
       + length (falsePositives (greedyMatch ty truths predictions th)) = length predictions"
  using greedyMatch_facts[of ty truths predictions th]
    acceptedPairs_bounds[of truths predictions th]
    greedyMatch_records[of ty truths predictions th]
    greedyMatch_partition[of ty truths predictions th]
  by blast

theorem greedyMatch_one_to_one_witness:
  "map truthIndex (acceptedPairs [\<lparr>pageIndex = 0, field = smokeTruthText\<rparr>]
     [\<lparr>pageIndex = 0, field = smokePredictionNear\<rparr>, \<lparr>pageIndex = 0, field = smokePredictionFar\<rparr>]
     (1 / 2)) = [0]
   \<and> map predictionIndex (acceptedPairs [\<lparr>pageIndex = 0, field = smokeTruthText\<rparr>]
     [\<lparr>pageIndex = 0, field = smokePredictionNear\<rparr>, \<lparr>pageIndex = 0, field = smokePredictionFar\<rparr>]
     (1 / 2)) = [0]
   \<and> map match_truth (matches (greedyMatch Text [\<lparr>pageIndex = 0, field = smokeTruthText\<rparr>]
         [\<lparr>pageIndex = 0, field = smokePredictionNear\<rparr>, \<lparr>pageIndex = 0, field = smokePredictionFar\<rparr>]
         (1 / 2))) = [\<lparr>pageIndex = 0, field = smokeTruthText\<rparr>]
   \<and> map match_prediction (matches (greedyMatch Text [\<lparr>pageIndex = 0, field = smokeTruthText\<rparr>]
         [\<lparr>pageIndex = 0, field = smokePredictionNear\<rparr>, \<lparr>pageIndex = 0, field = smokePredictionFar\<rparr>]
         (1 / 2))) = [\<lparr>pageIndex = 0, field = smokePredictionNear\<rparr>]
   \<and> length (falseNegatives (greedyMatch Text [\<lparr>pageIndex = 0, field = smokeTruthText\<rparr>]
         [\<lparr>pageIndex = 0, field = smokePredictionNear\<rparr>, \<lparr>pageIndex = 0, field = smokePredictionFar\<rparr>]
         (1 / 2))) = 0
   \<and> length (falsePositives (greedyMatch Text [\<lparr>pageIndex = 0, field = smokeTruthText\<rparr>]
         [\<lparr>pageIndex = 0, field = smokePredictionNear\<rparr>, \<lparr>pageIndex = 0, field = smokePredictionFar\<rparr>]
         (1 / 2))) = 1"
proof -
  let ?T = "[\<lparr>pageIndex = 0, field = smokeTruthText\<rparr>]"
  let ?P = "[\<lparr>pageIndex = 0, field = smokePredictionNear\<rparr>, \<lparr>pageIndex = 0, field = smokePredictionFar\<rparr>]"
  let ?M = "greedyMatch Text ?T ?P (1 / 2)"
  note g = greedyMatch_one_to_one[of Text ?T ?P "1 / 2"]
  have mt: "map match_truth (matches ?M) = [\<lparr>pageIndex = 0, field = smokeTruthText\<rparr>]"
    using g[THEN conjunct1] by (simp add: smoke_text_pairs)
  have mp: "map match_prediction (matches ?M) = [\<lparr>pageIndex = 0, field = smokePredictionNear\<rparr>]"
    using g[THEN conjunct2, THEN conjunct1] by (simp add: smoke_text_pairs)
  have "length (map match_truth (matches ?M)) = 1"
    by (simp only: mt) simp
  then have n: "length (matches ?M) = 1"
    by simp
  have "length (matches ?M) + length (falseNegatives ?M) = length ?T"
    and "length (matches ?M) + length (falsePositives ?M) = length ?P"
    using g by blast+
  then have "length (falseNegatives ?M) = 0" and "length (falsePositives ?M) = 1"
    using n by simp_all
  then show ?thesis
    using mt mp by (simp add: smoke_text_pairs)
qed

section \<open>Properties of the evaluator\<close>

lemma calcPrecision_finite: "isFinite (calcPrecision c)"
  by (simp add: calcPrecision_def)

lemma calcRecall_finite: "isFinite (calcRecall c)"
  by (simp add: calcRecall_def)

lemma calcPrecision_Fin:
  "calcPrecision c = Fin (if tp c + fp c = 0 then 0 else real (tp c) / real (tp c + fp c))"
  by (simp add: calcPrecision_def)

lemma calcRecall_Fin:
  "calcRecall c = Fin (if tp c + fn c = 0 then 0 else real (tp c) / real (tp c + fn c))"
  by (simp add: calcRecall_def)

lemma calcF1_finite: "isFinite (calcF1 c)"
  by (simp add: calcF1_def calcPrecision_Fin calcRecall_Fin Let_def)

lemma unmatched_empty: "unmatched {} xs = xs"
  by (simp add: unmatched_def map_snd_enumerate)

lemma greedyMatch_no_truths:
  "greedyMatch ty [] ps th = \<lparr>matches = [], falsePositives = ps, falseNegatives = []\<rparr>"
  by (simp add: greedyMatch_def collectCandidates_def sortCandidates_def unmatched_empty)

lemma foldl_evalType_matches:
  "es_matches (foldl (evalType T P th) s ts)
     = es_matches s @ concat (map (\<lambda>t. matches (typeRunOf T P th t)) ts)"
  by (induction ts arbitrary: s) (simp_all add: evalType_def Let_def)

lemma foldl_evalType_falsePositives:
  "es_falsePositives (foldl (evalType T P th) s ts)
     = es_falsePositives s @ concat (map (\<lambda>t. falsePositives (typeRunOf T P th t)) ts)"
  by (induction ts arbitrary: s) (simp_all add: evalType_def Let_def)

lemma foldl_evalType_falseNegatives:
  "es_falseNegatives (foldl (evalType T P th) s ts)
     = es_falseNegatives s @ concat (map (\<lambda>t. falseNegatives (typeRunOf T P th t)) ts)"
  by (induction ts arbitrary: s) (simp_all add: evalType_def Let_def)








lemma foldl_evalType_perType:
  "es_perType (foldl (evalType T P th) s ts) t
     = (if t \<in> set ts then Some (calcMetrics (countsOfRun (typeRunOf T P th t)))
        else es_perType s t)"
  by (induction ts arbitrary: s) (simp_all add: evalType_def Let_def)

lemma set_foldl_addType: "set (foldl addType acc ts) = set acc \<union> set ts"
  by (induction ts arbitrary: acc) (auto simp: addType_def)

lemma distinct_foldl_addType: "distinct acc \<Longrightarrow> distinct (foldl addType acc ts)"
  by (induction ts arbitrary: acc) (auto simp: addType_def)

lemma set_activeTypesOf:
  "set (activeTypesOf T P) = (\<lambda>i. field_type (field i)) ` set T \<union> (\<lambda>i. field_type (field i)) ` set P"
  by (simp add: activeTypesOf_def set_foldl_addType)

lemma distinct_activeTypesOf: "distinct (activeTypesOf T P)"
  by (simp add: activeTypesOf_def distinct_foldl_addType)

lemma mset_partition_by_key:
  assumes "distinct ts" "f ` set xs \<subseteq> set ts"
  shows "(\<Sum>t\<leftarrow>ts. mset (filter (\<lambda>x. f x = t) xs)) = mset xs"
  using assms(2)
proof (induction xs)
  case Nil
  show ?case by (induction ts) simp_all
next
  case (Cons x xs)
  have one: "(\<Sum>t\<leftarrow>ts. (if f x = t then {#x#} else {#})) = {#x#}"
    using assms(1) Cons.prems
    by (simp add: sum_list_distinct_conv_sum_set sum.delta')
  have "(\<Sum>t\<leftarrow>ts. mset (filter (\<lambda>y. f y = t) (x # xs)))
          = (\<Sum>t\<leftarrow>ts. (if f x = t then {#x#} else {#}) + mset (filter (\<lambda>y. f y = t) xs))"
    by (rule arg_cong[where f = sum_list]) (rule map_cong, simp_all)
  also have "\<dots> = (\<Sum>t\<leftarrow>ts. (if f x = t then {#x#} else {#}))
                     + (\<Sum>t\<leftarrow>ts. mset (filter (\<lambda>y. f y = t) xs))"
    by (simp add: sum_list_addf)
  finally show ?case using one Cons by simp
qed











lemma smoke_fields [simp]:
  "field_type smokeTruthText = Text" "field_type smokeTruthCheckbox = Checkbox"
  "field_type smokePredictionNear = Text" "field_type smokePredictionFar = Text"
  by (simp_all add: smokeTruthText_def smokeTruthCheckbox_def smokePredictionNear_def
        smokePredictionFar_def)

lemma smoke_flatten:
  "flattenTruth (Some smokeAnnotations)
     = [\<lparr>pageIndex = 0, field = smokeTruthText\<rparr>, \<lparr>pageIndex = 0, field = smokeTruthCheckbox\<rparr>]"
  "flattenPredictions smokeDetections
     = [\<lparr>pageIndex = 0, field = smokePredictionNear\<rparr>, \<lparr>pageIndex = 0, field = smokePredictionFar\<rparr>]"
  by (simp_all add: flattenTruth_def flattenPredictions_def smokeAnnotations_def
        smokeDetections_def)

lemma smoke_iou:
  "computeIoU (field_rect smokeTruthText) (field_rect smokePredictionNear) = 261 / 358"
  "computeIoU (field_rect smokeTruthText) (field_rect smokePredictionFar) = 0"
  by (simp_all add: computeIoU_def Let_def smokeTruthText_def smokePredictionNear_def
        smokePredictionFar_def)

lemma smoke_activeTypes:
  "activeTypesOf [\<lparr>pageIndex = 0, field = smokeTruthText\<rparr>, \<lparr>pageIndex = 0, field = smokeTruthCheckbox\<rparr>]
     [\<lparr>pageIndex = 0, field = smokePredictionNear\<rparr>, \<lparr>pageIndex = 0, field = smokePredictionFar\<rparr>]
   = [Text, Checkbox]"
  by (simp add: activeTypesOf_def addType_def)

lemma smoke_run_text:
  assumes "0 < th" "th \<le> 261 / 358"
  shows "typeRunOf [\<lparr>pageIndex = 0, field = smokeTruthText\<rparr>, \<lparr>pageIndex = 0, field = smokeTruthCheckbox\<rparr>]
     [\<lparr>pageIndex = 0, field = smokePredictionNear\<rparr>, \<lparr>pageIndex = 0, field = smokePredictionFar\<rparr>]
     th Text
   = \<lparr>matches = [\<lparr>match_type = Text, match_pageIndex = 0,
         match_truth = \<lparr>pageIndex = 0, field = smokeTruthText\<rparr>,
         match_prediction = \<lparr>pageIndex = 0, field = smokePredictionNear\<rparr>,
         match_iou = 261 / 358\<rparr>],
      falsePositives = [\<lparr>pageIndex = 0, field = smokePredictionFar\<rparr>],
      falseNegatives = []\<rparr>"
  using assms
  by (simp add: typeRunOf_def greedyMatch_def collectCandidates_def sortCandidates_def
        smoke_iou makeMatch_def unmatched_def Let_def)

lemma smoke_run_checkbox:
  "typeRunOf [\<lparr>pageIndex = 0, field = smokeTruthText\<rparr>, \<lparr>pageIndex = 0, field = smokeTruthCheckbox\<rparr>]
     [\<lparr>pageIndex = 0, field = smokePredictionNear\<rparr>, \<lparr>pageIndex = 0, field = smokePredictionFar\<rparr>]
     th Checkbox
   = \<lparr>matches = [], falsePositives = [],
      falseNegatives = [\<lparr>pageIndex = 0, field = smokeTruthCheckbox\<rparr>]\<rparr>"
  by (simp add: typeRunOf_def greedyMatch_def collectCandidates_def sortCandidates_def
        unmatched_def Let_def)

lemma smoke_state:
  assumes "0 < th" "th \<le> 261 / 358"
  shows "foldl (evalType [\<lparr>pageIndex = 0, field = smokeTruthText\<rparr>, \<lparr>pageIndex = 0, field = smokeTruthCheckbox\<rparr>]
     [\<lparr>pageIndex = 0, field = smokePredictionNear\<rparr>, \<lparr>pageIndex = 0, field = smokePredictionFar\<rparr>]
     th) initialEvalState [Text, Checkbox]
   = \<lparr>es_perType = [Text \<mapsto> \<lparr>tp = 1, fp = 1, fn = 0, precision = 0.5, recall = 1, f1 = 2/3\<rparr>,
                     Checkbox \<mapsto> \<lparr>tp = 0, fp = 0, fn = 1, precision = 0, recall = 0, f1 = 0\<rparr>],
      es_matches = [\<lparr>match_type = Text, match_pageIndex = 0,
         match_truth = \<lparr>pageIndex = 0, field = smokeTruthText\<rparr>,
         match_prediction = \<lparr>pageIndex = 0, field = smokePredictionNear\<rparr>,
         match_iou = 261 / 358\<rparr>],
      es_falsePositives = [\<lparr>pageIndex = 0, field = smokePredictionFar\<rparr>],
      es_falseNegatives = [\<lparr>pageIndex = 0, field = smokeTruthCheckbox\<rparr>],
      es_microCounts = \<lparr>tp = 1, fp = 1, fn = 1\<rparr>,
      es_macroPrecision = 0.5, es_macroRecall = 1, es_macroF1 = 2/3, es_macroTypes = 2\<rparr>"
  by (simp add: evalType_def initialEvalState_def smoke_run_text[OF assms] smoke_run_checkbox
        countsOfRun_def calcMetrics_def calcPrecision_def calcRecall_def calcF1_def Let_def)

lemma smoke_header:
  "out_documentId smokeDetections = ''synthetic''" "out_summary smokeDetections = None"
  by (simp_all add: smokeDetections_def)

lemma smoke_report:
  "evaluateDetectorOutput (Some smokeAnnotations) smokeDetections (Some 0.5)
   = \<lparr>matches = [\<lparr>match_type = Text, match_pageIndex = 0,
         match_truth = \<lparr>pageIndex = 0, field = smokeTruthText\<rparr>,
         match_prediction = \<lparr>pageIndex = 0, field = smokePredictionNear\<rparr>,
         match_iou = 261 / 358\<rparr>],
      falsePositives = [\<lparr>pageIndex = 0, field = smokePredictionFar\<rparr>],
      falseNegatives = [\<lparr>pageIndex = 0, field = smokeTruthCheckbox\<rparr>],
      report_documentId = ''synthetic'', report_threshold = 0.5,
      perType = [Text \<mapsto> \<lparr>tp = 1, fp = 1, fn = 0, precision = 0.5, recall = 1, f1 = 2/3\<rparr>,
                 Checkbox \<mapsto> \<lparr>tp = 0, fp = 0, fn = 1, precision = 0, recall = 0, f1 = 0\<rparr>],
      micro = \<lparr>tp = 1, fp = 1, fn = 1, precision = 0.5, recall = 0.5, f1 = 0.5,
                support = 2, predicted = 2\<rparr>,
      macro = \<lparr>tp = 1, fp = 1, fn = 1, precision = 0.25, recall = 0.5, f1 = 1/3,
                support = 2, predicted = 2\<rparr>,
      report_summary = None\<rparr>"
proof -
  have th: "(0::real) < 1 / 2" "(1::real) / 2 \<le> 261 / 358" by simp_all
  have s: "foldl (evalType (flattenTruth (Some smokeAnnotations))
                    (flattenPredictions smokeDetections) (1 / 2))
             initialEvalState
             (activeTypesOf (flattenTruth (Some smokeAnnotations))
                (flattenPredictions smokeDetections))
           = \<lparr>es_perType = [Text \<mapsto> \<lparr>tp = 1, fp = 1, fn = 0, precision = 0.5, recall = 1, f1 = 2/3\<rparr>,
                     Checkbox \<mapsto> \<lparr>tp = 0, fp = 0, fn = 1, precision = 0, recall = 0, f1 = 0\<rparr>],
      es_matches = [\<lparr>match_type = Text, match_pageIndex = 0,
         match_truth = \<lparr>pageIndex = 0, field = smokeTruthText\<rparr>,
         match_prediction = \<lparr>pageIndex = 0, field = smokePredictionNear\<rparr>,
         match_iou = 261 / 358\<rparr>],
      es_falsePositives = [\<lparr>pageIndex = 0, field = smokePredictionFar\<rparr>],
      es_falseNegatives = [\<lparr>pageIndex = 0, field = smokeTruthCheckbox\<rparr>],
      es_microCounts = \<lparr>tp = 1, fp = 1, fn = 1\<rparr>,
      es_macroPrecision = 0.5, es_macroRecall = 1, es_macroF1 = 2/3, es_macroTypes = 2\<rparr>"
    unfolding smoke_flatten smoke_activeTypes by (rule smoke_state[OF th])
  have len: "length (flattenTruth (Some smokeAnnotations)) = 2"
    "length (flattenPredictions smokeDetections) = 2"
    by (simp_all add: smoke_flatten)
  show ?thesis
    by (simp add: evaluateDetectorOutput_def s len Let_def aggregateMetrics_def calcMetrics_def
          calcPrecision_def calcRecall_def calcF1_def smoke_header)
qed


lemma report_fold:
  fixes ann det tha
  defines "s \<equiv> foldl (evalType (flattenTruth ann) (flattenPredictions det) (thresholdOf tha))
                   initialEvalState (activeTypesOfDocs ann det)"
  shows "matches (evaluateDetectorOutput ann det tha) = es_matches s"
    and "falsePositives (evaluateDetectorOutput ann det tha) = es_falsePositives s"
    and "falseNegatives (evaluateDetectorOutput ann det tha) = es_falseNegatives s"
    and "perType (evaluateDetectorOutput ann det tha) = es_perType s"
    and "micro (evaluateDetectorOutput ann det tha) = aggregateMetrics (es_microCounts s)"
    and "tp (macro (evaluateDetectorOutput ann det tha)) = tp (es_microCounts s)"
    and "fp (macro (evaluateDetectorOutput ann det tha)) = fp (es_microCounts s)"
    and "fn (macro (evaluateDetectorOutput ann det tha)) = fn (es_microCounts s)"
    and "precision (macro (evaluateDetectorOutput ann det tha))
           = (if es_macroTypes s = 0 then 0 else es_macroPrecision s / real (es_macroTypes s))"
    and "recall (macro (evaluateDetectorOutput ann det tha))
           = (if es_macroTypes s = 0 then 0 else es_macroRecall s / real (es_macroTypes s))"
    and "f1 (macro (evaluateDetectorOutput ann det tha))
           = (if es_macroTypes s = 0 then 0 else es_macroF1 s / real (es_macroTypes s))"
    and "support (macro (evaluateDetectorOutput ann det tha)) = length (flattenTruth ann)"
    and "predicted (macro (evaluateDetectorOutput ann det tha)) = length (flattenPredictions det)"
  by (simp_all add: s_def evaluateDetectorOutput_def Let_def thresholdOf_def activeTypesOfDocs_def)

lemma initialEvalState_simps:
  "es_perType initialEvalState = Map.empty" "es_matches initialEvalState = []"
  "es_falsePositives initialEvalState = []" "es_falseNegatives initialEvalState = []"
  "tp (es_microCounts initialEvalState) = 0" "fp (es_microCounts initialEvalState) = 0"
  "fn (es_microCounts initialEvalState) = 0" "es_macroPrecision initialEvalState = 0"
  "es_macroRecall initialEvalState = 0" "es_macroF1 initialEvalState = 0"
  "es_macroTypes initialEvalState = 0"
  by (simp_all add: initialEvalState_def)

lemma report_perType:
  "perType (evaluateDetectorOutput ann det tha) ty
     = (if ty \<in> set (activeTypesOfDocs ann det) then Some (typeMetricsOf ann det tha ty) else None)"
  by (simp add: report_fold foldl_evalType_perType initialEvalState_simps typeMetricsOf_def)


lemma typeRunOf_no_truths:
  "typeRunOf [] P th ty
     = \<lparr>matches = [], falsePositives = filter (\<lambda>i. field_type (field i) = ty) P,
        falseNegatives = []\<rparr>"
  by (simp add: typeRunOf_def greedyMatch_no_truths)

lemma no_truth_report:
  "matches (evaluateDetectorOutput None det tha) = []"
  "falseNegatives (evaluateDetectorOutput None det tha) = []"
  "falsePositives (evaluateDetectorOutput None det tha)
     = concat (map (\<lambda>ty. filter (\<lambda>i. field_type (field i) = ty) (flattenPredictions det))
                   (activeTypesOfDocs None det))"
  by (simp_all add: report_fold foldl_evalType_matches foldl_evalType_falseNegatives
        foldl_evalType_falsePositives initialEvalState_simps flattenTruth_def typeRunOf_no_truths)

lemma no_truth_falsePositives:
  "mset (falsePositives (evaluateDetectorOutput None det tha)) = mset (flattenPredictions det)"
proof -
  have "mset (falsePositives (evaluateDetectorOutput None det tha))
          = (\<Sum>ty\<leftarrow>activeTypesOfDocs None det.
               mset (filter (\<lambda>i. field_type (field i) = ty) (flattenPredictions det)))"
    by (simp add: no_truth_report mset_concat comp_def del: mset_filter)
  also have "\<dots> = mset (flattenPredictions det)"
    by (rule mset_partition_by_key)
       (auto simp: activeTypesOfDocs_def distinct_activeTypesOf set_activeTypesOf)
  finally show ?thesis .
qed

lemma no_truth_metrics:
  "precision (typeMetricsOf None det tha ty) = 0" "recall (typeMetricsOf None det tha ty) = 0"
  "tp (typeMetricsOf None det tha ty) = 0" "fn (typeMetricsOf None det tha ty) = 0"
  by (simp_all add: typeMetricsOf_def flattenTruth_def typeRunOf_no_truths countsOfRun_def
        calcMetrics_def calcPrecision_def calcRecall_def)

lemma no_truth_perType:
  assumes "i \<in> set (flattenPredictions det)"
  shows "\<exists>m. perType (evaluateDetectorOutput None det tha) (field_type (field i)) = Some m
             \<and> precision m = 0 \<and> recall m = 0"
proof -
  have "field_type (field i) \<in> set (activeTypesOfDocs None det)"
    using assms by (auto simp: activeTypesOfDocs_def set_activeTypesOf)
  then show ?thesis by (simp add: report_perType no_truth_metrics)
qed

lemma calcMetrics_guards:
  "tp c + fp c = 0 \<Longrightarrow> precision (calcMetrics c) = 0"
  "tp c + fn c = 0 \<Longrightarrow> recall (calcMetrics c) = 0"
  "precision (calcMetrics c) + recall (calcMetrics c) = 0 \<Longrightarrow> f1 (calcMetrics c) = 0"
  by (simp_all add: calcMetrics_def calcF1_def calcPrecision_Fin calcRecall_Fin Let_def)

text \<open>
  Claim C2. On the synthetic documents of the smoke test, at threshold 0.5, the near text
  prediction is matched to the text truth, the checkbox truth is the only false negative,
  the far text prediction is the only false positive, and the micro precision, recall and
  F1 are all 0.5.
\<close>

theorem smoke_scenario:
  "matches (evaluateDetectorOutput (Some smokeAnnotations) smokeDetections (Some 0.5))
     = [\<lparr>match_type = Text, match_pageIndex = 0,
         match_truth = \<lparr>pageIndex = 0, field = smokeTruthText\<rparr>,
         match_prediction = \<lparr>pageIndex = 0, field = smokePredictionNear\<rparr>,
         match_iou = 261 / 358\<rparr>]
   \<and> falseNegatives (evaluateDetectorOutput (Some smokeAnnotations) smokeDetections (Some 0.5))
     = [\<lparr>pageIndex = 0, field = smokeTruthCheckbox\<rparr>]
   \<and> falsePositives (evaluateDetectorOutput (Some smokeAnnotations) smokeDetections (Some 0.5))
     = [\<lparr>pageIndex = 0, field = smokePredictionFar\<rparr>]
   \<and> precision (micro (evaluateDetectorOutput (Some smokeAnnotations) smokeDetections (Some 0.5))) = 0.5
   \<and> recall (micro (evaluateDetectorOutput (Some smokeAnnotations) smokeDetections (Some 0.5))) = 0.5
   \<and> f1 (micro (evaluateDetectorOutput (Some smokeAnnotations) smokeDetections (Some 0.5))) = 0.5"
  unfolding smoke_report by simp

text \<open>
  Claim C4. The three metrics are finite before \<^const>\<open>clamp\<close> is applied, for all counts:
  the precision is 0 when \<open>tp + fp = 0\<close>, the recall is 0 when \<open>tp + fn = 0\<close>, the F1 is 0
  when precision + recall is 0. With an absent truth document nothing is matched, there is
  no false negative, the false positives are exactly the prediction instances, and every
  type that has a prediction has precision 0 and recall 0.
\<close>

theorem metrics_guarded:
  "isFinite (calcPrecision c) \<and> isFinite (calcRecall c) \<and> isFinite (calcF1 c)
   \<and> (tp c + fp c = 0 \<longrightarrow> precision (calcMetrics c) = 0)
   \<and> (tp c + fn c = 0 \<longrightarrow> recall (calcMetrics c) = 0)
   \<and> (precision (calcMetrics c) + recall (calcMetrics c) = 0 \<longrightarrow> f1 (calcMetrics c) = 0)
   \<and> matches (evaluateDetectorOutput None det tha) = []
   \<and> falseNegatives (evaluateDetectorOutput None det tha) = []
   \<and> mset (falsePositives (evaluateDetectorOutput None det tha)) = mset (flattenPredictions det)
   \<and> (\<forall>i \<in> set (flattenPredictions det).
         \<exists>m. perType (evaluateDetectorOutput None det tha) (field_type (field i)) = Some m
              \<and> precision m = 0 \<and> recall m = 0)"
  using calcPrecision_finite[of c] calcRecall_finite[of c] calcF1_finite[of c]
    calcMetrics_guards[of c] no_truth_report(1,2)[of det tha] no_truth_falsePositives[of det tha]
    no_truth_perType[of _ det tha]
  by blast

theorem metrics_guarded_witness:
  "tp \<lparr>tp = 0, fp = 0, fn = 0\<rparr> + fp \<lparr>tp = 0, fp = 0, fn = 0\<rparr> = 0
   \<and> precision (calcMetrics \<lparr>tp = 0, fp = 0, fn = 0\<rparr>) = 0
   \<and> tp \<lparr>tp = 0, fp = 0, fn = 0\<rparr> + fn \<lparr>tp = 0, fp = 0, fn = 0\<rparr> = 0
   \<and> recall (calcMetrics \<lparr>tp = 0, fp = 0, fn = 0\<rparr>) = 0
   \<and> precision (calcMetrics \<lparr>tp = 0, fp = 0, fn = 0\<rparr>)
       + recall (calcMetrics \<lparr>tp = 0, fp = 0, fn = 0\<rparr>) = 0
   \<and> f1 (calcMetrics \<lparr>tp = 0, fp = 0, fn = 0\<rparr>) = 0
   \<and> \<lparr>pageIndex = 0, field = smokePredictionNear\<rparr> \<in> set (flattenPredictions smokeDetections)
   \<and> (\<exists>m. perType (evaluateDetectorOutput None smokeDetections None) Text = Some m
            \<and> precision m = 0 \<and> recall m = 0)"
  using metrics_guarded[of "\<lparr>tp = 0, fp = 0, fn = 0\<rparr>" smokeDetections None]
  by (simp add: smoke_flatten)


section \<open>Properties of the detector\<close>

lemma pfd_getPixelBrightness_outside:
  assumes "px < 0 \<or> py < 0 \<or> w \<le> px \<or> fl (real (length data) - 2) \<le> pixelIndex px py w"
  shows "pfd_getPixelBrightness data px py w = Fin 255"
  using assms by (auto simp: pfd_getPixelBrightness_def Let_def)

lemma pixelIndex_beyond:
  assumes "0 \<le> px" "n / 4 \<le> py * w"
  shows "fl n \<le> pixelIndex px py w"
proof -
  have "fl (n / 4) \<le> fl (py * w)"
    using assms(2) by (rule fl_mono)
  then have "fl (n / 4) \<le> fl (py * w) + px"
    using assms(1) by simp
  then have "fl (fl (n / 4)) \<le> fl (fl (py * w) + px)"
    by (rule fl_mono)
  then have "fl (n / 4) * 4 \<le> fl (fl (py * w) + px) * 4"
    by simp
  then have "fl (fl (n / 4) * 4) \<le> fl (fl (fl (py * w) + px) * 4)"
    by (rule fl_mono)
  moreover have "fl (fl (n / 4) * 4) = fl n"
  proof -
    have "fl (n / 4) * 4 = fl n"
      using fl_times_4[of "n / 4"] by simp
    then show ?thesis
      by (simp only: fl_idem)
  qed
  ultimately show ?thesis
    by (simp add: pixelIndex_def)
qed

lemma pfd_getPixelBrightness_exact_buffer:
  assumes len: "real (length data) = w * h * 4"
    and out: "px < 0 \<or> w \<le> px \<or> py < 0 \<or> h \<le> py"
  shows "pfd_getPixelBrightness data px py w = Fin 255"
proof (cases "px < 0 \<or> py < 0 \<or> w \<le> px")
  case True
  then show ?thesis by (intro pfd_getPixelBrightness_outside) blast
next
  case False
  then have "h \<le> py" "0 \<le> px" "0 < w" using out by auto
  then have "h * w \<le> py * w" by simp
  then have "real (length data) / 4 \<le> py * w"
    using len by (simp add: mult.commute)
  then have "fl (real (length data)) \<le> pixelIndex px py w"
    using \<open>0 \<le> px\<close> by (intro pixelIndex_beyond)
  moreover have "fl (real (length data) - 2) \<le> fl (real (length data))"
    by (rule fl_mono) simp
  ultimately show ?thesis
    by (intro pfd_getPixelBrightness_outside) simp
qed

lemma readByte_integer:
  assumes "0 \<le> c" "c < int (length data)"
  shows "readByte data (of_int c) = Fin (real (unat (data ! nat c)))"
proof -
  have "(of_int c :: real) < real (length data)"
    using assms(2) by (metis of_int_less_iff of_int_of_nat_eq)
  then show ?thesis
    using assms(1) by (simp add: readByte_def)
qed

lemma readByte_not_integer:
  assumes "of_int \<lfloor>i\<rfloor> \<noteq> i \<or> i < 0 \<or> real (length data) \<le> i"
  shows "readByte data i = NaN"
  using assms by (auto simp: readByte_def)

lemma pixelIndex_integer:
  assumes "0 \<le> i" "0 \<le> j" "0 \<le> k"
  shows "\<exists>c\<ge>0. pixelIndex (of_int i) (of_int j) (of_int k) = of_int c"
proof -
  obtain a where a: "fl (of_int j * of_int k) = of_int a"
    using fl_of_int_integral[of "j * k"] by auto
  obtain b where b: "fl (of_int a + of_int i) = of_int b"
    using fl_of_int_integral[of "a + i"] by auto
  obtain c where c: "fl (of_int b * 4) = of_int c"
    using fl_of_int_integral[of "b * 4"] by auto
  have "(0::real) \<le> of_int a"
    unfolding a[symmetric] using assms by (intro fl_nonneg) simp
  then have "(0::real) \<le> of_int b"
    unfolding b[symmetric] using assms by (intro fl_nonneg) simp
  then have "(0::real) \<le> of_int c"
    unfolding c[symmetric] by (intro fl_nonneg) simp
  then have "0 \<le> c" by simp
  moreover have "pixelIndex (of_int i) (of_int j) (of_int k) = of_int c"
    by (simp only: pixelIndex_def a b c)
  ultimately show ?thesis by blast
qed

lemma pfd_getPixelBrightness_integer_finite:
  assumes "length data \<le> 2 ^ 53"
  shows "isFinite (pfd_getPixelBrightness data (of_int i) (of_int j) (of_int k))"
proof (cases "(of_int i :: real) < 0 \<or> (of_int j :: real) < 0 \<or> (of_int k :: real) \<le> of_int i
    \<or> fl (real (length data) - 2) \<le> pixelIndex (of_int i) (of_int j) (of_int k)")
  case True
  then have "pfd_getPixelBrightness data (of_int i) (of_int j) (of_int k) = Fin 255"
    by (rule pfd_getPixelBrightness_outside)
  then show ?thesis by simp
next
  case False
  then have ij: "0 \<le> i" "0 \<le> j" "i < k"
    and below: "pixelIndex (of_int i) (of_int j) (of_int k) < fl (real (length data) - 2)"
    by simp_all
  from ij obtain c where c: "0 \<le> c" "pixelIndex (of_int i) (of_int j) (of_int k) = of_int c"
    using pixelIndex_integer[of i j k] by auto
  have len: "int (length data) \<le> 2 ^ 53"
    using assms by (metis of_nat_le_iff of_nat_numeral of_nat_power)
  have "fl (of_int (int (length data) - 2)) = of_int (int (length data) - 2)"
    using len by (intro fl_of_int) simp
  then have "fl (real (length data) - 2) = real (length data) - 2"
    by simp
  then have "(of_int c :: real) < of_int (int (length data) - 2)"
    using below c(2) by simp
  then have small: "c < int (length data) - 2"
    by (simp only: of_int_less_iff)
  have "\<bar>c + 1\<bar> \<le> 2 ^ 53" "\<bar>c + 2\<bar> \<le> 2 ^ 53"
    using c(1) small len by simp_all
  then have next_bytes: "fl (of_int c + 1) = of_int c + 1" "fl (of_int c + 2) = of_int c + 2"
    using fl_of_int[of "c + 1"] fl_of_int[of "c + 2"] by simp_all
  have reads: "readByte data (of_int c) = Fin (real (unat (data ! nat c)))"
    "readByte data (of_int c + 1) = Fin (real (unat (data ! nat (c + 1))))"
    "readByte data (of_int c + 2) = Fin (real (unat (data ! nat (c + 2))))"
    using c(1) small readByte_integer[of c data] readByte_integer[of "c + 1" data]
      readByte_integer[of "c + 2" data]
    by simp_all
  show ?thesis
    using False
    by (simp add: pfd_getPixelBrightness_def Let_def c(2) next_bytes reads)
qed

lemma pfd_getPixelBrightness_fractional:
  assumes "\<not> (px < 0 \<or> py < 0 \<or> w \<le> px \<or> fl (real (length data) - 2) \<le> pixelIndex px py w)"
    and "of_int \<lfloor>pixelIndex px py w\<rfloor> \<noteq> pixelIndex px py w"
  shows "pfd_getPixelBrightness data px py w = NaN"
proof -
  have "readByte data (pixelIndex px py w) = NaN"
    using assms(2) by (intro readByte_not_integer) blast
  then show ?thesis
    using assms(1) by (simp add: pfd_getPixelBrightness_def Let_def)
qed

lemma rh_getPixelBrightness_invalid:
  assumes "pixelIndex px py w < 0 \<or> real (length data) \<le> pixelIndex px py w
    \<or> of_int \<lfloor>pixelIndex px py w\<rfloor> \<noteq> pixelIndex px py w"
  shows "rh_getPixelBrightness data px py w = NaN"
proof -
  have "readByte data (pixelIndex px py w) = NaN"
    using assms by (intro readByte_not_integer) blast
  then show ?thesis
    by (simp add: rh_getPixelBrightness_def Let_def)
qed

lemma fl_half_eighth: "fl (1 / 2) = 1 / 2" "fl (1 / 8) = 1 / 8"
  using fl_dyadic[of 1 "- 1"] fl_dyadic[of 1 "- 3"] by simp_all

lemma thresholds_ordered: "fl (2 / 5) \<le> fl (7 / 10)"
  by (rule fl_mono) simp

lemma pfd_keepElement_iff:
  "pfd_keepElement e tes \<longleftrightarrow> \<not> (\<exists>t\<in>set tes. droppedBecauseOf (el_rect e) (tb_rect t))"
  using thresholds_ordered by (induction tes) (auto simp: Let_def droppedBecauseOf_def)

lemma rh_keepElement_iff:
  "rh_keepElement e tes
     \<longleftrightarrow> (\<forall>t\<in>set tes. rh_calculateOverlapRatio (el_rect e) (tb_rect t) \<le> fl 0.3)"
  by (induction tes) auto

lemma fl_positive_part: "max 0 (fl v) = (if v \<le> 0 then 0 else fl v)"
proof (cases "v \<le> 0")
  case True
  then have "fl v \<le> 0" by (rule fl_nonpos)
  then show ?thesis using True by (simp add: max_def)
next
  case False
  then have "0 < fl v" by (intro fl_pos) simp
  then show ?thesis using False by (simp add: max_def)
qed

lemma pfd_ratio_is_intersection_over_area:
  "pfd_calculateRectangleOverlapRatio d t
     = (if 0 < rectArea d then fl (intersectionArea d t / rectArea d) else 0)"
proof -
  define x1 where "x1 = max (rect_x d) (rect_x t)"
  define y1 where "y1 = max (rect_y d) (rect_y t)"
  define x2 where "x2 = min (fl (rect_x d + rect_width d)) (fl (rect_x t + rect_width t))"
  define y2 where "y2 = min (fl (rect_y d + rect_height d)) (fl (rect_y t + rect_height t))"
  have code: "pfd_calculateRectangleOverlapRatio d t
                = (if x2 \<le> x1 \<or> y2 \<le> y1 then 0
                   else if 0 < rectArea d then fl (fl (fl (x2 - x1) * fl (y2 - y1)) / rectArea d)
                   else 0)"
    by (simp add: pfd_calculateRectangleOverlapRatio_def Let_def x1_def y1_def x2_def y2_def
          rectArea_def)
  have spec: "intersectionArea d t
                = (if x2 \<le> x1 \<or> y2 \<le> y1 then 0 else fl (fl (x2 - x1) * fl (y2 - y1)))"
    by (simp add: intersectionArea_def x1_def y1_def x2_def y2_def fl_positive_part)
  show ?thesis unfolding code spec by simp
qed

lemma if_positive_swap: "(if 0 < (u::real) then a else b) = (if u \<le> 0 then b else a)"
  by auto

lemma rh_ratio_is_IoU: "rh_calculateOverlapRatio d t = computeIoU_double d t"
  unfolding rh_calculateOverlapRatio_def computeIoU_double_def Let_def if_positive_swap ..

lemma pfd_filter_keeps_low_overlap:
  assumes "e \<in> set es"
    "\<forall>t\<in>set tes. pfd_calculateRectangleOverlapRatio (el_rect e) (tb_rect t) \<le> fl 0.4"
  shows "e \<in> set (pfd_filterTextOverlaps es tes)"
  using assms thresholds_ordered
  by (fastforce simp: pfd_filterTextOverlaps_def pfd_keepElement_iff droppedBecauseOf_def)

lemma rh_merge_pair:
  "rh_mergeAdjacentFields opts [a, b]
     = (if rh_shouldMerge opts a b
        then [a\<lparr>el_rect := rh_mergeRects (el_rect a) (el_rect b),
                confidence := max (confidence a) (confidence b) * 0.9\<rparr>]
        else [a, b])"
  by (simp add: rh_mergeAdjacentFields_def Let_def)

lemma rh_shouldMerge_threshold_free:
  "rh_shouldMerge (opts\<lparr>confidenceThreshold := t\<rparr>) = rh_shouldMerge opts"
  by (intro ext) (simp add: rh_shouldMerge_def)

lemma rh_mergeInner_threshold_free:
  "rh_mergeInner (opts\<lparr>confidenceThreshold := t\<rparr>) es = rh_mergeInner opts es"
proof (intro ext)
  fix st :: "DetectedElement \<times> bool list" and j
  show "rh_mergeInner (opts\<lparr>confidenceThreshold := t\<rparr>) es st j = rh_mergeInner opts es st j"
    by (cases st) (simp add: rh_shouldMerge_threshold_free)
qed

lemma rh_mergeOuter_threshold_free:
  "rh_mergeOuter (opts\<lparr>confidenceThreshold := t\<rparr>) es = rh_mergeOuter opts es"
proof (intro ext)
  fix st :: "DetectedElement list \<times> bool list" and i
  show "rh_mergeOuter (opts\<lparr>confidenceThreshold := t\<rparr>) es st i = rh_mergeOuter opts es st i"
    by (cases st) (simp add: rh_mergeInner_threshold_free)
qed

lemma rh_mergeAdjacentFields_threshold_free:
  "rh_mergeAdjacentFields (opts\<lparr>confidenceThreshold := t\<rparr>) es = rh_mergeAdjacentFields opts es"
  by (simp add: rh_mergeAdjacentFields_def rh_mergeOuter_threshold_free)

lemma pfd_mergeInner_threshold_free:
  "pfd_mergeInner (opts\<lparr>confidenceThreshold := t\<rparr>) es cur = pfd_mergeInner opts es cur"
proof (intro ext)
  fix st :: "DetectedElement list \<times> nat set" and j
  show "pfd_mergeInner (opts\<lparr>confidenceThreshold := t\<rparr>) es cur st j = pfd_mergeInner opts es cur st j"
    by (cases st) (simp add: pfd_areAdjacent_def)
qed

lemma pfd_mergeOuter_threshold_free:
  "pfd_mergeOuter (opts\<lparr>confidenceThreshold := t\<rparr>) es = pfd_mergeOuter opts es"
proof (intro ext)
  fix st :: "DetectedElement list \<times> nat set" and i
  show "pfd_mergeOuter (opts\<lparr>confidenceThreshold := t\<rparr>) es st i = pfd_mergeOuter opts es st i"
    by (cases st) (simp add: pfd_mergeInner_threshold_free)
qed

lemma pfd_mergeAdjacentFields_threshold_free:
  "pfd_mergeAdjacentFields (opts\<lparr>confidenceThreshold := t\<rparr>) es = pfd_mergeAdjacentFields opts es"
  by (simp add: pfd_mergeAdjacentFields_def pfd_mergeOuter_threshold_free)

lemma rawElements_threshold_free:
  assumes "passesIgnoreConfidenceThreshold P"
  shows "rawElements P (opts\<lparr>confidenceThreshold := t\<rparr>) img w h = rawElements P opts img w h"
  using assms
  by (simp add: rawElements_def passesIgnoreConfidenceThreshold_def ignoresConfidenceThreshold_def)

lemma rh_mergedElements_threshold_free:
  assumes "passesIgnoreConfidenceThreshold P"
  shows "rh_mergedElements P (opts\<lparr>confidenceThreshold := t\<rparr>) img w h tes
           = rh_mergedElements P opts img w h tes"
  by (simp add: rh_mergedElements_def rawElements_threshold_free[OF assms]
        rh_mergeAdjacentFields_threshold_free rh_filterByMinimumSize_def)

lemma pfd_mergedElements_threshold_free:
  assumes "passesIgnoreConfidenceThreshold P"
  shows "pfd_mergedElements P (opts\<lparr>confidenceThreshold := t\<rparr>) img w h tes
           = pfd_mergedElements P opts img w h tes"
  by (simp add: pfd_mergedElements_def rawElements_threshold_free[OF assms]
        pfd_mergeAdjacentFields_threshold_free)

lemma rh_detectFields_threshold:
  assumes "passesIgnoreConfidenceThreshold P"
  shows "snd (rh_detectFields P (opts\<lparr>confidenceThreshold := t\<rparr>) img w h tes)
           = filter (\<lambda>e. t \<le> confidence e)
               (rh_mergedElements P (opts\<lparr>maxFieldHeight := min (maxFieldHeight opts) (h * 0.5)\<rparr>)
                  img w h tes)"
proof -
  have "rh_mergedElements P
          (opts\<lparr>confidenceThreshold := t, maxFieldHeight := min (maxFieldHeight opts) (h * 0.5)\<rparr>)
          img w h tes
        = rh_mergedElements P
            ((opts\<lparr>maxFieldHeight := min (maxFieldHeight opts) (h * 0.5)\<rparr>)\<lparr>confidenceThreshold := t\<rparr>)
            img w h tes"
    by (cases opts) simp
  also have "\<dots> = rh_mergedElements P (opts\<lparr>maxFieldHeight := min (maxFieldHeight opts) (h * 0.5)\<rparr>)
                      img w h tes"
    by (rule rh_mergedElements_threshold_free[OF assms])
  finally show ?thesis by (simp add: rh_detectFields_def Let_def)
qed

lemma pfd_detectFields_threshold:
  assumes "passesIgnoreConfidenceThreshold P"
  shows "snd (pfd_detectFields P (opts\<lparr>confidenceThreshold := t\<rparr>) img w h tes)
           = filter (\<lambda>e. t \<le> confidence e)
               (pfd_mergedElements P (opts\<lparr>maxFieldHeight := min (maxFieldHeight opts) (h * 0.5)\<rparr>)
                  img w h tes)"
proof -
  have "pfd_mergedElements P
          (opts\<lparr>confidenceThreshold := t, maxFieldHeight := min (maxFieldHeight opts) (h * 0.5)\<rparr>)
          img w h tes
        = pfd_mergedElements P
            ((opts\<lparr>maxFieldHeight := min (maxFieldHeight opts) (h * 0.5)\<rparr>)\<lparr>confidenceThreshold := t\<rparr>)
            img w h tes"
    by (cases opts) simp
  also have "\<dots> = pfd_mergedElements P (opts\<lparr>maxFieldHeight := min (maxFieldHeight opts) (h * 0.5)\<rparr>)
                      img w h tes"
    by (rule pfd_mergedElements_threshold_free[OF assms])
  finally show ?thesis by (simp add: pfd_detectFields_def Let_def)
qed

lemma filter_raise_threshold:
  assumes "t1 \<le> (t2::real)"
  shows "filter (\<lambda>e. t2 \<le> f e) (filter (\<lambda>e. t1 \<le> f e) xs) = filter (\<lambda>e. t2 \<le> f e) xs"
  using assms by (induction xs) auto

lemma rh_detectFields_options:
  "fst (rh_detectFields P opts img w h tes)
     = opts\<lparr>maxFieldHeight := min (maxFieldHeight opts) (h * 0.5)\<rparr>"
  by (simp add: rh_detectFields_def Let_def)

lemma pfd_detectFields_options:
  "fst (pfd_detectFields P opts img w h tes)
     = opts\<lparr>maxFieldHeight := min (maxFieldHeight opts) (h * 0.5)\<rparr>"
  by (simp add: pfd_detectFields_def Let_def)

lemma rh_detectFields_again:
  "rh_detectFields P (fst (rh_detectFields P opts img w h tes)) img w h tes
     = rh_detectFields P opts img w h tes"
  by (simp add: rh_detectFields_def Let_def)

lemma pfd_detectFields_again:
  "pfd_detectFields P (fst (pfd_detectFields P opts img w h tes)) img w h tes
     = pfd_detectFields P opts img w h tes"
  by (simp add: pfd_detectFields_def Let_def)


lemma pfd_filter_characterised:
  "pfd_filterTextOverlaps es tes
     = filter (\<lambda>e. \<not> (\<exists>tb\<in>set tes. droppedBecauseOf (el_rect e) (tb_rect tb))) es"
  by (simp add: pfd_filterTextOverlaps_def pfd_keepElement_iff)

lemma rh_filter_characterised:
  "rh_filterTextOverlaps es tes
     = filter (\<lambda>e. \<forall>tb\<in>set tes. rh_calculateOverlapRatio (el_rect e) (tb_rect tb) \<le> fl 0.3) es"
  by (simp add: rh_filterTextOverlaps_def rh_keepElement_iff)

lemma ratio_step_1: "fl (3 / 10) = 5404319552844595 / 18014398509481984"
proof -
  have "fl (3 / 10) = of_int 5404319552844595 * 2 powi (- 2 - 52)"
    by (rule fl_eval) (simp_all add: roundHalfEven_def Let_def)
  then show ?thesis by simp
qed

lemma ratio_step_2: "fl (4 / 5) = 3602879701896397 / 4503599627370496"
proof -
  have "fl (4 / 5) = of_int 7205759403792794 * 2 powi (- 1 - 52)"
    by (rule fl_eval) (simp_all add: roundHalfEven_def Let_def)
  then show ?thesis by simp
qed

lemma ratio_step_3: "fl (2 / 5) = 3602879701896397 / 9007199254740992"
proof -
  have "fl (2 / 5) = of_int 7205759403792794 * 2 powi (- 2 - 52)"
    by (rule fl_eval) (simp_all add: roundHalfEven_def Let_def)
  then show ?thesis by simp
qed

lemma ratio_step_4: "fl (7 / 10) = 3152519739159347 / 4503599627370496"
proof -
  have "fl (7 / 10) = of_int 6305039478318694 * 2 powi (- 1 - 52)"
    by (rule fl_eval) (simp_all add: roundHalfEven_def Let_def)
  then show ?thesis by simp
qed

lemma ratio_step_5: "fl (19815838360430183 / 18014398509481984) = 2476979795053773 / 2251799813685248"
proof -
  have "fl (19815838360430183 / 18014398509481984) = of_int 4953959590107546 * 2 powi (0 - 52)"
    by (rule fl_eval) (simp_all add: roundHalfEven_def Let_def)
  then show ?thesis by simp
qed

lemma ratio_step_6: "fl (12610078956637389 / 18014398509481984) = 3152519739159347 / 4503599627370496"
proof -
  have "fl (12610078956637389 / 18014398509481984) = of_int 6305039478318694 * 2 powi (- 1 - 52)"
    by (rule fl_eval) (simp_all add: roundHalfEven_def Let_def)
  then show ?thesis by simp
qed

lemma ratio_step_7: "fl (3152519739159347 / 4503599627370496) = 3152519739159347 / 4503599627370496"
proof -
  have "fl (3152519739159347 / 4503599627370496) = of_int 6305039478318694 * 2 powi (- 1 - 52)"
    by (rule fl_eval) (simp_all add: roundHalfEven_def Let_def)
  then show ?thesis by simp
qed

lemma ratio_step_8: "fl (1 / 5) = 3602879701896397 / 18014398509481984"
proof -
  have "fl (1 / 5) = of_int 7205759403792794 * 2 powi (- 3 - 52)"
    by (rule fl_eval) (simp_all add: roundHalfEven_def Let_def)
  then show ?thesis by simp
qed

lemmas ratio_steps =
  ratio_step_1 ratio_step_2 ratio_step_3 ratio_step_4 ratio_step_5 ratio_step_6 ratio_step_7 ratio_step_8

lemma fixture_ratios:
  "pfd_calculateRectangleOverlapRatio (el_rect leftElement) (tb_rect labelBox) = fl (1 / 5)"
  "pfd_calculateRectangleOverlapRatio (el_rect glyphElement) (tb_rect labelBox) = 1"
  "pfd_isRectangleContainedWithin (el_rect glyphElement) (tb_rect labelBox)"
  "pfd_calculateRectangleOverlapRatio (el_rect leftElement) (tb_rect innerBox) = fl (2 / 5)"
  "\<not> pfd_isRectangleContainedWithin (el_rect leftElement) (tb_rect innerBox)"
  "rh_calculateOverlapRatio (el_rect leftElement) (tb_rect innerBox) = fl (2 / 5)"
  "rectArea (el_rect leftElement) = 1000"
  "intersectionArea (el_rect leftElement) (tb_rect innerBox) = 400"
  "intersectionArea (el_rect leftElement) (tb_rect labelBox) = 200"
  by (simp_all add: pfd_calculateRectangleOverlapRatio_def pfd_isRectangleContainedWithin_def
        rh_calculateOverlapRatio_def rectArea_def intersectionArea_def leftElement_def
        glyphElement_def labelBox_def innerBox_def Let_def fl_numeral)

lemma boundary_ratio:
  "pfd_calculateRectangleOverlapRatio (el_rect unitElement) (tb_rect offsetBox) = fl (7 / 10)"
  "\<not> pfd_isRectangleContainedWithin (el_rect unitElement) (tb_rect offsetBox)"
  "7 / 10 < 1 - rect_x (tb_rect offsetBox)"
  by (simp_all add: pfd_calculateRectangleOverlapRatio_def pfd_isRectangleContainedWithin_def
        unitElement_def offsetBox_def Let_def ratio_steps)

lemma threshold_values:
  "fl (1 / 5) \<le> fl (2 / 5)" "fl (2 / 5) < 1" "fl (3 / 10) < fl (2 / 5)"
  by (simp_all add: ratio_steps)

text \<open>
  Claim C5, as amended. In \<^verbatim>\<open>pdfFieldDetection\<close> the overlap ratio is the intersection
  area over the detection's area, computed in doubles, and 0 for a detection whose area is
  not positive; the filter drops a detection exactly when, for some known text box, the
  ratio exceeds 0.4 while the detection is contained in the box, or the ratio exceeds 0.7
  (0.4 and 0.7 being the doubles of these literals); a detection whose ratio is at most 0.4
  for every box is kept. In \<^verbatim>\<open>rasterHeuristics\<close> the ratio is the IoU, and a detection is
  kept exactly when its IoU with every known text box is at most 0.3.
\<close>

theorem text_overlap_filter:
  "pfd_calculateRectangleOverlapRatio d t
     = (if 0 < rectArea d then fl (intersectionArea d t / rectArea d) else 0)
   \<and> pfd_filterTextOverlaps es tes
       = filter (\<lambda>e. \<not> (\<exists>tb\<in>set tes. droppedBecauseOf (el_rect e) (tb_rect tb))) es
   \<and> (e \<in> set es
        \<and> (\<forall>tb\<in>set tes. pfd_calculateRectangleOverlapRatio (el_rect e) (tb_rect tb) \<le> fl 0.4)
       \<longrightarrow> e \<in> set (pfd_filterTextOverlaps es tes))
   \<and> rh_calculateOverlapRatio d t = computeIoU_double d t
   \<and> rh_filterTextOverlaps es tes
       = filter (\<lambda>e. \<forall>tb\<in>set tes. rh_calculateOverlapRatio (el_rect e) (tb_rect tb) \<le> fl 0.3) es"
  using pfd_ratio_is_intersection_over_area[of d t] pfd_filter_characterised[of es tes]
    pfd_filter_keeps_low_overlap[of e es tes] rh_ratio_is_IoU[of d t]
    rh_filter_characterised[of es tes]
  by blast

text \<open>
  Two instances. A label box over the right fifth of a detection and over a glyph-sized
  element: the detection is kept, the contained element is dropped. A text box over seven
  tenths of the unit square: the exact share \<open>1 - fl 0.3\<close> is above 0.7, the computed
  ratio is the double \<open>fl 0.7\<close>, which is not above the threshold, and the square is kept.
\<close>

theorem text_overlap_filter_witness:
  "pfd_calculateRectangleOverlapRatio (el_rect leftElement) (tb_rect labelBox)
       = fl (intersectionArea (el_rect leftElement) (tb_rect labelBox) / rectArea (el_rect leftElement))
   \<and> leftElement \<in> set [leftElement, glyphElement]
   \<and> pfd_calculateRectangleOverlapRatio (el_rect leftElement) (tb_rect labelBox) \<le> fl 0.4
   \<and> leftElement \<in> set (pfd_filterTextOverlaps [leftElement, glyphElement] [labelBox])
   \<and> pfd_filterTextOverlaps [leftElement, glyphElement] [labelBox] = [leftElement]
   \<and> 7 / 10 < 1 - rect_x (tb_rect offsetBox)
   \<and> pfd_calculateRectangleOverlapRatio (el_rect unitElement) (tb_rect offsetBox) = fl 0.7
   \<and> pfd_filterTextOverlaps [unitElement] [offsetBox] = [unitElement]"
proof -
  note a = text_overlap_filter[of "el_rect leftElement" "tb_rect labelBox"
      "[leftElement, glyphElement]" "[labelBox]" leftElement]
  note b = text_overlap_filter[of "el_rect unitElement" "tb_rect offsetBox"
      "[unitElement]" "[offsetBox]" unitElement]
  have low: "pfd_calculateRectangleOverlapRatio (el_rect leftElement) (tb_rect labelBox) \<le> fl 0.4"
    by (simp add: fixture_ratios threshold_values)
  have ratio: "pfd_calculateRectangleOverlapRatio (el_rect leftElement) (tb_rect labelBox)
       = fl (intersectionArea (el_rect leftElement) (tb_rect labelBox) / rectArea (el_rect leftElement))"
    using a[THEN conjunct1] by (simp add: fixture_ratios)
  have "leftElement \<in> set [leftElement, glyphElement]
      \<and> (\<forall>tb\<in>set [labelBox].
            pfd_calculateRectangleOverlapRatio (el_rect leftElement) (tb_rect tb) \<le> fl 0.4)"
    using low by simp
  then have kept: "leftElement \<in> set (pfd_filterTextOverlaps [leftElement, glyphElement] [labelBox])"
    by (rule a[THEN conjunct2, THEN conjunct2, THEN conjunct1, THEN mp])
  have d1: "\<not> droppedBecauseOf (el_rect leftElement) (tb_rect labelBox)"
    and d2: "droppedBecauseOf (el_rect glyphElement) (tb_rect labelBox)"
    and d3: "\<not> droppedBecauseOf (el_rect unitElement) (tb_rect offsetBox)"
    by (simp_all add: droppedBecauseOf_def fixture_ratios boundary_ratio ratio_steps)
  have rest: "pfd_filterTextOverlaps [leftElement, glyphElement] [labelBox] = [leftElement]"
    using a[THEN conjunct2, THEN conjunct1] by (simp add: d1 d2)
  have unit: "pfd_filterTextOverlaps [unitElement] [offsetBox] = [unitElement]"
    using b[THEN conjunct2, THEN conjunct1] by (simp add: d3)
  show ?thesis
    using low ratio kept rest unit boundary_ratio by simp
qed

text \<open>
  The claim as stated fails for \<^verbatim>\<open>rasterHeuristics\<close>: a text box that covers two fifths of
  a detection (overlap ratio 0.4, not above 0.4) makes its filter drop the detection, which
  the filter of \<^verbatim>\<open>pdfFieldDetection\<close> keeps.
\<close>

theorem text_overlap_filter_counterexample:
  "fl (intersectionArea (el_rect leftElement) (tb_rect innerBox) / rectArea (el_rect leftElement))
     \<le> fl 0.4
   \<and> pfd_calculateRectangleOverlapRatio (el_rect leftElement) (tb_rect innerBox) \<le> fl 0.4
   \<and> pfd_filterTextOverlaps [leftElement] [innerBox] = [leftElement]
   \<and> rh_filterTextOverlaps [leftElement] [innerBox] = []"
  by (simp add: fixture_ratios threshold_values rh_filterTextOverlaps_def
        pfd_filterTextOverlaps_def)

text \<open>
  Claim C6, as amended. In \<^verbatim>\<open>pdfFieldDetection\<close>, \<^verbatim>\<open>getPixelBrightness\<close> returns 255
  whenever \<open>x < 0\<close>, \<open>y < 0\<close>, \<open>x \<ge> width\<close> or the index of the pixel is at or beyond
  \<^verbatim>\<open>data.length - 2\<close>; in particular, for a buffer of exactly \<open>width * height * 4\<close> bytes,
  at every coordinate outside the image. For integer coordinates its result is a finite
  number. For coordinates that pass the guard with an index that is not an integer the
  read is \<^verbatim>\<open>undefined\<close> and the result is \<^verbatim>\<open>NaN\<close>. In \<^verbatim>\<open>rasterHeuristics\<close>,
  \<^verbatim>\<open>getPixelBrightness\<close> has no guard: its result is \<^verbatim>\<open>NaN\<close> whenever the index of the pixel
  is not a valid index of the buffer.
\<close>

theorem pixel_brightness_guard:
  "((px < 0 \<or> py < 0 \<or> w \<le> px \<or> fl (real (length data) - 2) \<le> pixelIndex px py w)
       \<longrightarrow> pfd_getPixelBrightness data px py w = Fin 255)
   \<and> (real (length data) = w * h * 4 \<and> (px < 0 \<or> w \<le> px \<or> py < 0 \<or> h \<le> py)
       \<longrightarrow> pfd_getPixelBrightness data px py w = Fin 255)
   \<and> (length data \<le> 2 ^ 53
       \<longrightarrow> isFinite (pfd_getPixelBrightness data (of_int i) (of_int j) (of_int k)))
   \<and> (\<not> (px < 0 \<or> py < 0 \<or> w \<le> px \<or> fl (real (length data) - 2) \<le> pixelIndex px py w)
        \<and> of_int \<lfloor>pixelIndex px py w\<rfloor> \<noteq> pixelIndex px py w
       \<longrightarrow> pfd_getPixelBrightness data px py w = NaN)
   \<and> (pixelIndex px py w < 0 \<or> real (length data) \<le> pixelIndex px py w
        \<or> of_int \<lfloor>pixelIndex px py w\<rfloor> \<noteq> pixelIndex px py w
       \<longrightarrow> rh_getPixelBrightness data px py w = NaN)"
  using pfd_getPixelBrightness_outside[of px py w data]
    pfd_getPixelBrightness_exact_buffer[of data w h px py]
    pfd_getPixelBrightness_integer_finite[of data i j k]
    pfd_getPixelBrightness_fractional[of px py w data]
    rh_getPixelBrightness_invalid[of px py w data]
  by blast

text \<open>
  On an image of one black pixel: the read at \<open>x = 1\<close> is outside the image and gives 255
  in \<^verbatim>\<open>pdfFieldDetection\<close> and \<^verbatim>\<open>NaN\<close> in \<^verbatim>\<open>rasterHeuristics\<close>; the read at \<open>(0, 0)\<close> gives
  the brightness 0; the read at \<open>x = 1/8\<close> passes the guard with the index \<open>1/2\<close> and
  gives \<^verbatim>\<open>NaN\<close>.
\<close>

theorem pixel_brightness_guard_witness:
  "real (length [0, 0, 0, 255 :: 8 word]) = 1 * 1 * 4
   \<and> (1::real) \<le> 1
   \<and> pfd_getPixelBrightness [0, 0, 0, 255] 1 0 1 = Fin 255
   \<and> length [0, 0, 0, 255 :: 8 word] \<le> 2 ^ 53
   \<and> isFinite (pfd_getPixelBrightness [0, 0, 0, 255] (of_int 0) (of_int 0) (of_int 1))
   \<and> pfd_getPixelBrightness [0, 0, 0, 255] 0 0 1 = Fin 0
   \<and> real (length [0, 0, 0, 255 :: 8 word]) \<le> pixelIndex 1 0 1
   \<and> rh_getPixelBrightness [0, 0, 0, 255] 1 0 1 = NaN
   \<and> \<not> (1 / 8 < (0::real) \<or> (0::real) < 0 \<or> (1::real) \<le> 1 / 8
          \<or> fl (real (length [0, 0, 0, 255 :: 8 word]) - 2) \<le> pixelIndex (1 / 8) 0 1)
   \<and> pixelIndex (1 / 8) 0 1 = 1 / 2
   \<and> pfd_getPixelBrightness [0, 0, 0, 255] (1 / 8) 0 1 = NaN"
proof -
  note a = pixel_brightness_guard[of 1 0 1 "[0, 0, 0, 255]" 1 0 0 1]
  note b = pixel_brightness_guard[of "1 / 8" 0 1 "[0, 0, 0, 255]" 1 0 0 1]
  have idx: "pixelIndex 1 0 1 = 4" "pixelIndex (1 / 8) 0 1 = 1 / 2" "pixelIndex 0 0 1 = 0"
    by (simp_all add: pixelIndex_def fl_numeral fl_half_eighth)
  have frac: "of_int \<lfloor>1 / 2 :: real\<rfloor> \<noteq> (1 / 2 :: real)"
    by simp
  have guard: "\<not> (1 / 8 < (0::real) \<or> (0::real) < 0 \<or> (1::real) \<le> 1 / 8
          \<or> fl (real (length [0, 0, 0, 255 :: 8 word]) - 2) \<le> pixelIndex (1 / 8) 0 1)"
    by (simp add: idx fl_numeral)
  have outside: "pfd_getPixelBrightness [0, 0, 0, 255] 1 0 1 = Fin 255"
    using a by simp
  have finite: "isFinite (pfd_getPixelBrightness [0, 0, 0, 255] (of_int 0) (of_int 0) (of_int 1))"
    using a by simp
  have black: "pfd_getPixelBrightness [0, 0, 0, 255] 0 0 1 = Fin 0"
    by (simp add: pfd_getPixelBrightness_def readByte_def Let_def idx fl_numeral)
  have rh: "rh_getPixelBrightness [0, 0, 0, 255] 1 0 1 = NaN"
    using a by (simp add: idx)
  have nan: "pfd_getPixelBrightness [0, 0, 0, 255] (1 / 8) 0 1 = NaN"
    using b guard frac by (simp add: idx)
  show ?thesis
    using outside finite black rh guard nan by (simp add: idx)
qed

text \<open>
  The claim as stated fails for \<^verbatim>\<open>rasterHeuristics\<close>, whose \<^verbatim>\<open>getPixelBrightness\<close> has no
  range check: on a one-pixel image the read at \<open>x = 1\<close> is \<^verbatim>\<open>NaN\<close>, and on a white and
  black image of two pixels the read at \<open>(-1, 1)\<close> is the brightness 0 of the black pixel.
\<close>

theorem pixel_brightness_guard_counterexample:
  "rh_getPixelBrightness [0, 0, 0, 255] 1 0 1 = NaN
   \<and> rh_getPixelBrightness [0, 0, 0, 255] 1 0 1 \<noteq> Fin 255
   \<and> rh_getPixelBrightness [255, 255, 255, 255, 0, 0, 0, 255] (- 1) 1 2 = Fin 0
   \<and> rh_getPixelBrightness [255, 255, 255, 255, 0, 0, 0, 255] (- 1) 1 2 \<noteq> Fin 255"
  by (simp add: rh_getPixelBrightness_def pixelIndex_def readByte_def Let_def fl_numeral)

text \<open>
  Claim C7, as amended. \<^verbatim>\<open>detectFields\<close> replaces the stored \<^verbatim>\<open>maxFieldHeight\<close> by the
  minimum of its current value and half the page height and leaves every other option as
  it is; the new value stays on the detector. A second call with the same inputs changes
  nothing further and returns the same result, so both calls use the same effective
  \<^verbatim>\<open>maxFieldHeight\<close>.
\<close>

theorem detectFields_options_effect:
  "fst (rh_detectFields P opts img w h tes)
     = opts\<lparr>maxFieldHeight := min (maxFieldHeight opts) (h * 0.5)\<rparr>
   \<and> rh_detectFields P (fst (rh_detectFields P opts img w h tes)) img w h tes
       = rh_detectFields P opts img w h tes
   \<and> fst (pfd_detectFields P opts img w h tes)
       = opts\<lparr>maxFieldHeight := min (maxFieldHeight opts) (h * 0.5)\<rparr>
   \<and> pfd_detectFields P (fst (pfd_detectFields P opts img w h tes)) img w h tes
       = pfd_detectFields P opts img w h tes"
  using rh_detectFields_options[of P opts img w h tes] rh_detectFields_again[of P opts img w h tes]
    pfd_detectFields_options[of P opts img w h tes] pfd_detectFields_again[of P opts img w h tes]
  by blast

theorem detectFields_options_effect_witness:
  "maxFieldHeight (fst (rh_detectFields (fixedPasses [leftElement, rightElement]) defaultOptions
       (whiteImage 200 100) 200 100 None)) = 50
   \<and> rh_detectFields (fixedPasses [leftElement, rightElement])
        (fst (rh_detectFields (fixedPasses [leftElement, rightElement]) defaultOptions
                (whiteImage 200 100) 200 100 None))
        (whiteImage 200 100) 200 100 None
       = rh_detectFields (fixedPasses [leftElement, rightElement]) defaultOptions
           (whiteImage 200 100) 200 100 None"
proof -
  note inst = detectFields_options_effect[of "fixedPasses [leftElement, rightElement]"
      defaultOptions "whiteImage 200 100" 200 100 None]
  have "fst (rh_detectFields (fixedPasses [leftElement, rightElement]) defaultOptions
               (whiteImage 200 100) 200 100 None)
          = defaultOptions\<lparr>maxFieldHeight := min (maxFieldHeight defaultOptions) (100 * 0.5)\<rparr>"
    using inst by (rule conjunct1)
  then have "maxFieldHeight (fst (rh_detectFields (fixedPasses [leftElement, rightElement])
               defaultOptions (whiteImage 200 100) 200 100 None)) = 50"
    by (simp add: defaultOptions_def)
  moreover have "rh_detectFields (fixedPasses [leftElement, rightElement])
        (fst (rh_detectFields (fixedPasses [leftElement, rightElement]) defaultOptions
                (whiteImage 200 100) 200 100 None))
        (whiteImage 200 100) 200 100 None
       = rh_detectFields (fixedPasses [leftElement, rightElement]) defaultOptions
           (whiteImage 200 100) 200 100 None"
    using inst by (rule conjunct1[OF conjunct2])
  ultimately show ?thesis by (rule conjI)
qed

text \<open>
  The claim as stated fails: with the default options (\<^verbatim>\<open>maxFieldHeight\<close> 200), a call on
  a page of height 100 leaves 50 in the options, and a later call on a page of height
  1000 still works with 50, not with \<open>min 200 500 = 200\<close>.
\<close>

theorem detectFields_options_effect_counterexample:
  "maxFieldHeight defaultOptions = 200
   \<and> maxFieldHeight (fst (rh_detectFields (fixedPasses []) defaultOptions
         (whiteImage 200 100) 200 100 None)) = 50
   \<and> fst (rh_detectFields (fixedPasses []) defaultOptions (whiteImage 200 100) 200 100 None)
       \<noteq> defaultOptions
   \<and> fst (pfd_detectFields (fixedPasses []) defaultOptions (whiteImage 200 100) 200 100 None)
       \<noteq> defaultOptions
   \<and> maxFieldHeight (fst (rh_detectFields (fixedPasses [])
         (fst (rh_detectFields (fixedPasses []) defaultOptions (whiteImage 200 100) 200 100 None))
         (whiteImage 2000 1000) 2000 1000 None)) = 50
   \<and> min (maxFieldHeight defaultOptions) (0.5 * 1000) = 200"
  by (simp add: rh_detectFields_def pfd_detectFields_def defaultOptions_def Let_def)

lemma fixture_types:
  "el_type leftElement = EText" "el_type rightElement = EText"
  by (simp_all add: leftElement_def rightElement_def)

lemma fixture_touching:
  "touchesLeftOf (el_rect leftElement) (el_rect rightElement)"
  "touching (el_rect leftElement) (el_rect rightElement)"
  by (simp_all add: touching_def touchesLeftOf_def overlapOnY_def leftElement_def
        rightElement_def)

lemma fixture_shouldMerge:
  "mergeThreshold opts = 5 \<Longrightarrow> rh_shouldMerge opts rightElement leftElement"
  "mergeThreshold opts = 5 \<Longrightarrow> \<not> rh_shouldMerge opts leftElement rightElement"
  by (simp_all add: rh_shouldMerge_def leftElement_def rightElement_def Let_def)

lemma defaultOptions_mergeThreshold: "mergeThreshold defaultOptions = 5"
  by (simp add: defaultOptions_def)

lemma fixture_merged_rect:
  "rh_mergeRects (el_rect rightElement) (el_rect leftElement)
     = \<lparr>rect_x = 0, rect_y = 0, rect_width = 100, rect_height = 20\<rparr>"
  by (simp add: rh_mergeRects_def leftElement_def rightElement_def Let_def)

text \<open>
  Claim C8 against \<^verbatim>\<open>rasterHeuristics\<close>. \<^verbatim>\<open>shouldMerge(a, b)\<close> measures the horizontal gap
  as \<open>|a.x - (b.x + b.width)|\<close> and the vertical gap as \<open>|a.y - (b.y + b.height)|\<close> only,
  so it sees a gap of 0 when \<open>b\<close> ends where \<open>a\<close> begins, and a gap of the sum of the two
  widths when \<open>a\<close> ends where \<open>b\<close> begins. Two text elements of 50 by 20 pixels side by
  side, the first ending where the second begins, are of the same type and touch; under
  the default options (\<^verbatim>\<open>mergeThreshold\<close> 5) \<^verbatim>\<open>mergeAdjacentFields\<close> returns them unmerged
  when they are listed left to right, and merges the same two elements into their bounding
  box when they are listed right to left.
\<close>

theorem merge_touching_pair_order:
  "el_type leftElement = el_type rightElement
   \<and> touching (el_rect leftElement) (el_rect rightElement)
   \<and> rh_mergeAdjacentFields defaultOptions [leftElement, rightElement]
       = [leftElement, rightElement]
   \<and> map el_rect (rh_mergeAdjacentFields defaultOptions [rightElement, leftElement])
       = [\<lparr>rect_x = 0, rect_y = 0, rect_width = 100, rect_height = 20\<rparr>]"
  by (simp add: fixture_types fixture_touching rh_merge_pair fixture_merged_rect
        fixture_shouldMerge[OF defaultOptions_mergeThreshold])

text \<open>
  Claim C9. For passes that do not read \<^verbatim>\<open>confidenceThreshold\<close> (as in the sources), for
  every image, page size, optional text boxes and thresholds \<open>t1 < t2\<close> with all other
  options equal: the elements returned with \<open>t2\<close> are those returned with \<open>t1\<close> whose
  confidence is at least \<open>t2\<close>, hence a subset. This holds for both versions of
  \<^verbatim>\<open>detectFields\<close>.
\<close>

theorem confidence_threshold_monotone:
  assumes "passesIgnoreConfidenceThreshold P" and "t1 < t2"
  shows "snd (rh_detectFields P (opts\<lparr>confidenceThreshold := t2\<rparr>) img w h tes)
           = filter (\<lambda>e. t2 \<le> confidence e)
               (snd (rh_detectFields P (opts\<lparr>confidenceThreshold := t1\<rparr>) img w h tes))
         \<and> set (snd (rh_detectFields P (opts\<lparr>confidenceThreshold := t2\<rparr>) img w h tes))
             \<subseteq> set (snd (rh_detectFields P (opts\<lparr>confidenceThreshold := t1\<rparr>) img w h tes))
         \<and> snd (pfd_detectFields P (opts\<lparr>confidenceThreshold := t2\<rparr>) img w h tes)
             = filter (\<lambda>e. t2 \<le> confidence e)
                 (snd (pfd_detectFields P (opts\<lparr>confidenceThreshold := t1\<rparr>) img w h tes))
         \<and> set (snd (pfd_detectFields P (opts\<lparr>confidenceThreshold := t2\<rparr>) img w h tes))
             \<subseteq> set (snd (pfd_detectFields P (opts\<lparr>confidenceThreshold := t1\<rparr>) img w h tes))"
proof -
  have le: "t1 \<le> t2" using assms(2) by simp
  have rh: "snd (rh_detectFields P (opts\<lparr>confidenceThreshold := t2\<rparr>) img w h tes)
              = filter (\<lambda>e. t2 \<le> confidence e)
                  (snd (rh_detectFields P (opts\<lparr>confidenceThreshold := t1\<rparr>) img w h tes))"
    by (simp only: rh_detectFields_threshold[OF assms(1)] filter_raise_threshold[OF le])
  have pfd: "snd (pfd_detectFields P (opts\<lparr>confidenceThreshold := t2\<rparr>) img w h tes)
              = filter (\<lambda>e. t2 \<le> confidence e)
                  (snd (pfd_detectFields P (opts\<lparr>confidenceThreshold := t1\<rparr>) img w h tes))"
    by (simp only: pfd_detectFields_threshold[OF assms(1)] filter_raise_threshold[OF le])
  have rh_sub: "set (snd (rh_detectFields P (opts\<lparr>confidenceThreshold := t2\<rparr>) img w h tes))
             \<subseteq> set (snd (rh_detectFields P (opts\<lparr>confidenceThreshold := t1\<rparr>) img w h tes))"
    by (subst rh) auto
  have pfd_sub: "set (snd (pfd_detectFields P (opts\<lparr>confidenceThreshold := t2\<rparr>) img w h tes))
             \<subseteq> set (snd (pfd_detectFields P (opts\<lparr>confidenceThreshold := t1\<rparr>) img w h tes))"
    by (subst pfd) auto
  show ?thesis using rh pfd rh_sub pfd_sub by blast
qed

lemma fixedPasses_ignore: "passesIgnoreConfidenceThreshold (fixedPasses es)"
  by (simp add: passesIgnoreConfidenceThreshold_def ignoresConfidenceThreshold_def fixedPasses_def)

lemma fixture_detection:
  "snd (rh_detectFields (fixedPasses [leftElement, rightElement])
          (defaultOptions\<lparr>confidenceThreshold := t\<rparr>) (whiteImage 200 100) 200 100 None)
     = filter (\<lambda>e. t \<le> confidence e) [leftElement, rightElement]"
proof -
  have "rh_filterByMinimumSize (defaultOptions\<lparr>confidenceThreshold := t, maxFieldHeight := 50\<rparr>)
          [leftElement, rightElement] 100 = [leftElement, rightElement]"
    by (simp add: rh_filterByMinimumSize_def defaultOptions_def leftElement_def rightElement_def
          Let_def)
  moreover have "rh_mergeAdjacentFields (defaultOptions\<lparr>confidenceThreshold := t, maxFieldHeight := 50\<rparr>)
          [leftElement, rightElement] = [leftElement, rightElement]"
    by (simp add: rh_merge_pair fixture_shouldMerge(2) defaultOptions_def)
  ultimately show ?thesis
    by (simp add: rh_detectFields_def rh_mergedElements_def rawElements_def fixedPasses_def
          Let_def defaultOptions_def)
qed

theorem confidence_threshold_monotone_witness:
  "passesIgnoreConfidenceThreshold (fixedPasses [leftElement, rightElement])
   \<and> (0.3::real) < 0.7
   \<and> snd (rh_detectFields (fixedPasses [leftElement, rightElement])
            (defaultOptions\<lparr>confidenceThreshold := 0.7\<rparr>) (whiteImage 200 100) 200 100 None)
       = [leftElement]
   \<and> snd (rh_detectFields (fixedPasses [leftElement, rightElement])
            (defaultOptions\<lparr>confidenceThreshold := 0.3\<rparr>) (whiteImage 200 100) 200 100 None)
       = [leftElement, rightElement]
   \<and> set (snd (rh_detectFields (fixedPasses [leftElement, rightElement])
            (defaultOptions\<lparr>confidenceThreshold := 0.7\<rparr>) (whiteImage 200 100) 200 100 None))
       \<subseteq> set (snd (rh_detectFields (fixedPasses [leftElement, rightElement])
            (defaultOptions\<lparr>confidenceThreshold := 0.3\<rparr>) (whiteImage 200 100) 200 100 None))"
proof -
  have hyp: "passesIgnoreConfidenceThreshold (fixedPasses [leftElement, rightElement])"
    by (rule fixedPasses_ignore)
  have lt: "(0.3::real) < 0.7" by simp
  have c: "confidence leftElement = 0.8" "confidence rightElement = 0.6"
    by (simp_all add: leftElement_def rightElement_def)
  show ?thesis
    using confidence_threshold_monotone[OF hyp lt, of defaultOptions "whiteImage 200 100" 200 100 None]
      hyp
    unfolding fixture_detection
    by (simp add: c)
qed

end
